theory Spec2Isabelle
  imports Main "HOL-Library.AList" "HOL-Library.Char_ord" "HOL-Library.List_Lexorder"
    "HOL-Library.Multiset"
begin

section \<open>Exceptions and results\<close>

text \<open>
  Every \<^verbatim>\<open>raise\<close> of \<^verbatim>\<open>app.py\<close> and of the library calls it makes is a value:
  a function that can raise returns \<open>exn + 'a\<close>, with \<open>Inl\<close> the exception.
  The argument of each constructor is what the exception was raised with.
\<close>

datatype exn =
    RuntimeError string
  | KeyError string
  | TypeError string
  | OSError string
  | JSONDecodeError string
  | AttributeError string string
  | Exception string

text \<open>What \<^verbatim>\<open>print\<close> wrote to standard output, in order.\<close>

datatype stdout = PrintExn exn | PrintStr string

section \<open>Model selection and the chat turn\<close>

text \<open>
  Python's \<^verbatim>\<open>sub in s\<close> on strings: \<open>sub\<close> occurs in \<open>s\<close> as a contiguous
  run of characters.
\<close>

fun str_contains :: "string \<Rightarrow> string \<Rightarrow> bool" where
  "str_contains sub [] = (sub = [])"
| "str_contains sub (c # cs) = (take (length sub) (c # cs) = sub \<or> str_contains sub cs)"

text \<open>
  The two dropdown arguments of \<^verbatim>\<open>run_chat\<close> are Python values, and the first line reads
  \<^verbatim>\<open>user_agent_dropdown.value.name\<close> of whatever it is given. The chat interface of the
  app passes the values of its additional inputs, which are agent ids (strings) or
  \<^verbatim>\<open>None\<close>; an object with attributes is the third case. \<open>getattr\<close> is the read of an
  attribute that neither \<^verbatim>\<open>str\<close> nor \<^verbatim>\<open>NoneType\<close> has, as \<^verbatim>\<open>value\<close> and \<^verbatim>\<open>name\<close>:
  it raises \<^verbatim>\<open>AttributeError\<close> with the name of the type and of the attribute.
\<close>

datatype pyobj = PyNone | PyStr string | PyObject "(string \<times> pyobj) list"

fun getattr :: "pyobj \<Rightarrow> string \<Rightarrow> exn + pyobj" where
  "getattr PyNone a = Inl (AttributeError ''NoneType'' a)"
| "getattr (PyStr s) a = Inl (AttributeError ''str'' a)"
| "getattr (PyObject attrs) a =
     (case map_of attrs a of None \<Rightarrow> Inl (AttributeError ''object'' a) | Some v \<Rightarrow> Inr v)"

text \<open>
  The model library (\<^verbatim>\<open>transformers\<close>, \<^verbatim>\<open>peft\<close>) and the prompt formatter of
  \<^verbatim>\<open>utils\<close> are outside \<^verbatim>\<open>app.py\<close>; they are parameters. \<open>'m\<close> is a loaded model,
  \<open>'t\<close> a tokenizer, a token is a \<open>nat\<close>. \<open>load_model q\<close> is
  \<^verbatim>\<open>AutoModelForCausalLM.from_pretrained\<close> of the Mistral base, \<open>q\<close> telling whether
  the 4-bit quantization config is passed; \<open>load_adapter\<close> is
  \<^verbatim>\<open>PeftModel.from_pretrained(model, model_name).to("cuda")\<close>. The \<^verbatim>\<open>@cache\<close> on
  \<^verbatim>\<open>prepare_model\<close> keeps a loaded model for its name and keeps nothing when the call
  raises; with the library calls as functions, the cached call returns what the body
  returns, and \<open>prepare_model\<close> is the body.
\<close>

record ('m, 't) llm =
  load_model :: "bool \<Rightarrow> exn + 'm"
  load_tokenizer :: "exn + 't"
  load_adapter :: "'m \<Rightarrow> string \<Rightarrow> exn + 'm"
  tokenize :: "'t \<Rightarrow> string \<Rightarrow> exn + nat list"
  generate :: "'m \<Rightarrow> nat list \<Rightarrow> exn + nat list"
  decode :: "'t \<Rightarrow> nat list \<Rightarrow> exn + string"
  format_sotopia_prompt ::
    "string \<Rightarrow> (string \<times> string) list \<Rightarrow> string \<Rightarrow> pyobj \<Rightarrow> pyobj \<Rightarrow> exn + string"

definition prepare_model :: "('m, 't) llm \<Rightarrow> string \<Rightarrow> exn + ('m \<times> 't)" where
  "prepare_model L model_name =
     (if str_contains ''cmu-lti/sotopia-pi-mistral-7b-BC_SR'' model_name then
        (case load_model L True of
           Inl e \<Rightarrow> Inl e
         | Inr model \<Rightarrow>
            (case load_tokenizer L of
               Inl e \<Rightarrow> Inl e
             | Inr tokenizer \<Rightarrow>
                (case load_adapter L model model_name of
                   Inl e \<Rightarrow> Inl e
                 | Inr model' \<Rightarrow> Inr (model', tokenizer))))
      else if str_contains ''mistralai/Mistral-7B-Instruct-v0.1'' model_name then
        (case load_model L False of
           Inl e \<Rightarrow> Inl e
         | Inr model \<Rightarrow>
            (case load_tokenizer L of
               Inl e \<Rightarrow> Inl e
             | Inr tokenizer \<Rightarrow> Inr (model, tokenizer)))
      else Inl (RuntimeError (''Model '' @ model_name @ '' not supported'')))"

text \<open>The choices of the model-selection dropdown built by \<^verbatim>\<open>sotopia_info_accordion\<close>.\<close>

definition model_name_choices :: "string list" where
  "model_name_choices =
     [''cmu-lti/sotopia-pi-mistral-7b-BC_SR'', ''mistralai/Mistral-7B-Instruct-v0.1'', ''GPT3.5'']"

text \<open>
  The sanitizer \<^verbatim>\<open>format_bot_message\<close> is in \<^verbatim>\<open>utils\<close>, outside \<^verbatim>\<open>app.py\<close>. Nothing in
  \<^verbatim>\<open>run_chat\<close> says that it is pure, so it is a parameter that reads and updates a hidden
  state \<open>'s\<close>: two calls on the same text may differ.

  The loop \<^verbatim>\<open>for _ in range(5)\<close> of \<^verbatim>\<open>run_chat\<close>: \<open>n\<close> attempts are left, \<open>output\<close> is
  the variable of that name, \<open>out\<close> what has been printed. A successful attempt assigns
  \<open>output\<close> and breaks; a raising one prints the exception and \<^verbatim>\<open>Retrying...\<close>.
\<close>

fun retry_loop ::
  "('s \<Rightarrow> string \<Rightarrow> (exn + string) \<times> 's) \<Rightarrow> nat \<Rightarrow> string \<Rightarrow> string \<Rightarrow> 's \<Rightarrow> stdout list
     \<Rightarrow> string \<times> 's \<times> stdout list" where
  "retry_loop format_bot_message 0 text_output output s out = (output, s, out)"
| "retry_loop format_bot_message (Suc n) text_output output s out =
     (case format_bot_message s text_output of
        (Inr r, s') \<Rightarrow> (r, s', out)
      | (Inl e, s') \<Rightarrow>
          retry_loop format_bot_message n text_output output s'
            (out @ [PrintExn e, PrintStr ''Retrying...'']))"

text \<open>
  Lines 245 to 253 of \<^verbatim>\<open>run_chat\<close>: \<^verbatim>\<open>output = ""\<close>, the loop, \<^verbatim>\<open>return output\<close>.
\<close>

definition sanitize_reply ::
  "('s \<Rightarrow> string \<Rightarrow> (exn + string) \<times> 's) \<Rightarrow> string \<Rightarrow> 's \<Rightarrow> string \<times> 's \<times> stdout list" where
  "sanitize_reply format_bot_message text_output s =
     retry_loop format_bot_message 5 text_output '''' s []"

text \<open>An agent has a \<^verbatim>\<open>name\<close>.\<close>

record named =
  name :: string

text \<open>
  Lines 224 to 244 of \<^verbatim>\<open>run_chat\<close>: the text that reaches the sanitizer. The two names
  are read first, the user's before the bot's. The generated sequence starts with the
  input tokens, which \<^verbatim>\<open>output_tokens[:, input_length:]\<close> drops.
\<close>

definition raw_completion ::
  "('m, 't) llm \<Rightarrow> string \<Rightarrow> (string \<times> string) list \<Rightarrow> string \<Rightarrow> pyobj \<Rightarrow> pyobj \<Rightarrow> string
     \<Rightarrow> exn + string" where
  "raw_completion L message history instructions user_agent_dropdown bot_agent_dropdown
                  model_selection =
     (case getattr user_agent_dropdown ''value'' of
        Inl e \<Rightarrow> Inl e
      | Inr user_value \<Rightarrow>
     (case getattr user_value ''name'' of
        Inl e \<Rightarrow> Inl e
      | Inr user_name \<Rightarrow>
     (case getattr bot_agent_dropdown ''value'' of
        Inl e \<Rightarrow> Inl e
      | Inr bot_value \<Rightarrow>
     (case getattr bot_value ''name'' of
        Inl e \<Rightarrow> Inl e
      | Inr bot_name \<Rightarrow>
     (case prepare_model L model_selection of
        Inl e \<Rightarrow> Inl e
      | Inr (model, tokenizer) \<Rightarrow>
     (case format_sotopia_prompt L message history instructions user_name bot_name of
        Inl e \<Rightarrow> Inl e
      | Inr prompt \<Rightarrow>
     (case tokenize L tokenizer prompt of
        Inl e \<Rightarrow> Inl e
      | Inr input_tokens \<Rightarrow>
     (let input_length = length input_tokens
      in (case generate L model input_tokens of
            Inl e \<Rightarrow> Inl e
          | Inr output_tokens \<Rightarrow>
              decode L tokenizer (drop input_length output_tokens))))))))))"

text \<open>
  \<^verbatim>\<open>run_chat\<close>: the reply, or the exception that left the function, with the sanitizer's
  state and the printed lines.
\<close>

definition run_chat ::
  "('m, 't) llm \<Rightarrow> ('s \<Rightarrow> string \<Rightarrow> (exn + string) \<times> 's) \<Rightarrow> 's \<Rightarrow>
   string \<Rightarrow> (string \<times> string) list \<Rightarrow> string \<Rightarrow> pyobj \<Rightarrow> pyobj \<Rightarrow> string
     \<Rightarrow> (exn + string) \<times> 's \<times> stdout list" where
  "run_chat L format_bot_message s message history instructions
            user_agent_dropdown bot_agent_dropdown model_selection =
     (case raw_completion L message history instructions user_agent_dropdown
             bot_agent_dropdown model_selection of
        Inl e \<Rightarrow> (Inl e, s, [])
      | Inr text_output \<Rightarrow>
          (case sanitize_reply format_bot_message text_output s of
             (output, s', out) \<Rightarrow> (Inr output, s', out)))"

text \<open>
  One attempt in place of the loop, as the specification reads the retry policy: the
  sanitizer is called once, and its failure leaves \<^verbatim>\<open>output\<close> as initialised.
\<close>

definition sanitize_once ::
  "('s \<Rightarrow> string \<Rightarrow> (exn + string) \<times> 's) \<Rightarrow> string \<Rightarrow> 's \<Rightarrow> string" where
  "sanitize_once format_bot_message text_output s =
     (case fst (format_bot_message s text_output) of Inr r \<Rightarrow> r | Inl e \<Rightarrow> '''')"

text \<open>
  The sanitizer raises on each of the next \<open>n\<close> attempts on \<open>text_output\<close>, started in
  state \<open>s\<close>.
\<close>

fun attempts_fail ::
  "('s \<Rightarrow> string \<Rightarrow> (exn + string) \<times> 's) \<Rightarrow> nat \<Rightarrow> string \<Rightarrow> 's \<Rightarrow> bool" where
  "attempts_fail format_bot_message 0 text_output s = True"
| "attempts_fail format_bot_message (Suc n) text_output s =
     (case format_bot_message s text_output of
        (Inr r, s') \<Rightarrow> False
      | (Inl e, s') \<Rightarrow> attempts_fail format_bot_message n text_output s')"

text \<open>
  The exceptions that the next \<open>n\<close> attempts raise, in order, up to the first attempt
  that returns; and the sanitizer's state after \<open>n\<close> calls.
\<close>

fun raised ::
  "('s \<Rightarrow> string \<Rightarrow> (exn + string) \<times> 's) \<Rightarrow> nat \<Rightarrow> string \<Rightarrow> 's \<Rightarrow> exn list" where
  "raised format_bot_message 0 text_output s = []"
| "raised format_bot_message (Suc n) text_output s =
     (case format_bot_message s text_output of
        (Inr r, s') \<Rightarrow> []
      | (Inl e, s') \<Rightarrow> e # raised format_bot_message n text_output s')"

fun state_after ::
  "('s \<Rightarrow> string \<Rightarrow> (exn + string) \<times> 's) \<Rightarrow> nat \<Rightarrow> string \<Rightarrow> 's \<Rightarrow> 's" where
  "state_after format_bot_message 0 text_output s = s"
| "state_after format_bot_message (Suc n) text_output s =
     state_after format_bot_message n text_output (snd (format_bot_message s text_output))"

text \<open>What the loop prints for a list of raised exceptions.\<close>

definition retry_log :: "exn list \<Rightarrow> stdout list" where
  "retry_log es = concat (map (\<lambda>e. [PrintExn e, PrintStr ''Retrying...'']) es)"

text \<open>
  The sanitizer is a deterministic function of its input text: what it returns or raises
  does not depend on the hidden state.
\<close>

definition deterministic :: "('s \<Rightarrow> string \<Rightarrow> (exn + string) \<times> 's) \<Rightarrow> bool" where
  "deterministic format_bot_message =
     (\<forall>s s' x. fst (format_bot_message s x) = fst (format_bot_message s' x))"

subsection \<open>Concrete collaborators\<close>

text \<open>
  A model library that loads every supported model and answers every prompt with three
  hash signs, and two sanitizers: one that always raises, and one that strips nothing and
  rejects the empty text, counting its calls.
\<close>

definition demo_llm :: "(unit, unit) llm" where
  "demo_llm =
     \<lparr> load_model = (\<lambda>q. Inr ()),
       load_tokenizer = Inr (),
       load_adapter = (\<lambda>m n. Inr m),
       tokenize = (\<lambda>t p. Inr (map of_char p)),
       generate = (\<lambda>m ts. Inr (ts @ [35, 35, 35])),
       decode = (\<lambda>t ts. Inr (replicate (length ts) CHR ''#'')),
       format_sotopia_prompt = (\<lambda>message history instructions user_name bot_name. Inr message) \<rparr>"

definition always_raises :: "unit \<Rightarrow> string \<Rightarrow> (exn + string) \<times> unit" where
  "always_raises s x = (Inl (Exception ''no reply span''), s)"

definition counting_sanitizer :: "nat \<Rightarrow> string \<Rightarrow> (exn + string) \<times> nat" where
  "counting_sanitizer s x = (if x = [] then Inl (Exception ''empty'') else Inr x, Suc s)"

text \<open>
  A dropdown argument as the first line of \<^verbatim>\<open>run_chat\<close> reads it, an object whose
  \<^verbatim>\<open>value\<close> has a \<^verbatim>\<open>name\<close>.
\<close>

definition demo_agent :: pyobj where
  "demo_agent = PyObject [(''value'', PyObject [(''name'', PyStr ''Ada'')])]"

section \<open>The profile store\<close>

text \<open>
  A Python \<^verbatim>\<open>dict\<close> is an association list in insertion order with distinct keys:
  \<open>map_of\<close> looks a key up, and \<open>AList.update\<close> assigns, in place for a key that is
  there and at the end for a new one.
\<close>

type_synonym ('k, 'v) dict = "('k \<times> 'v) list"

text \<open>
  A parsed line of a profile file is a JSON object. The loader reads four of its fields
  (\<^verbatim>\<open>codename\<close>, \<^verbatim>\<open>relationship\<close>, \<^verbatim>\<open>agent1_id\<close>, \<^verbatim>\<open>agent2_id\<close>), which the data
  model has as strings, and hands the object to the classes of \<^verbatim>\<open>utils\<close>. A profile is
  the dict of the string-valued fields of the object.
\<close>

type_synonym profile = "(string, string) dict"

text \<open>\<^verbatim>\<open>d[k]\<close> on a plain \<^verbatim>\<open>dict\<close> with string keys.\<close>

definition getitem :: "(string, 'v) dict \<Rightarrow> string \<Rightarrow> exn + 'v" where
  "getitem d k = (case map_of d k of None \<Rightarrow> Inl (KeyError k) | Some v \<Rightarrow> Inr v)"

text \<open>
  Modelled from the spec: the classes \<^verbatim>\<open>Environment\<close> and \<^verbatim>\<open>Agent\<close> of \<^verbatim>\<open>utils\<close> are not
  in \<^verbatim>\<open>app.py\<close>. Their objects carry the fields of section 3 of the specification;
  \<open>e_id\<close> and \<open>a_id\<close> are the attribute \<^verbatim>\<open>_id\<close>. An agent has a \<^verbatim>\<open>name\<close>, as the
  values read by \<^verbatim>\<open>run_chat\<close> have.
\<close>

record environment =
  e_id :: string
  codename :: string
  scenario :: string
  agent_goals :: "string list"
  relationship :: string

record agent = named +
  a_id :: string
  agent_id :: string
  background :: string
  personality :: string

text \<open>
  What the loader takes from outside \<^verbatim>\<open>app.py\<close>: \<open>readlines path\<close> is
  \<^verbatim>\<open>open(path, 'r')\<close> followed by \<^verbatim>\<open>f.readlines()\<close>, \<open>json_loads\<close> is
  \<^verbatim>\<open>json.loads\<close>, and the two constructors are those of \<^verbatim>\<open>utils\<close>. Each may raise.
\<close>

record ext =
  readlines :: "string \<Rightarrow> exn + string list"
  json_loads :: "string \<Rightarrow> exn + profile"
  Environment :: "profile \<Rightarrow> exn + environment"
  Agent :: "profile \<Rightarrow> exn + agent"

text \<open>
  A list comprehension \<^verbatim>\<open>[f(x) for x in xs]\<close> whose \<open>f\<close> may raise: the first
  exception leaves the comprehension.
\<close>

fun comprehension :: "('a \<Rightarrow> exn + 'b) \<Rightarrow> 'a list \<Rightarrow> exn + 'b list" where
  "comprehension f [] = Inr []"
| "comprehension f (x # xs) =
     (case f x of
        Inl e \<Rightarrow> Inl e
      | Inr y \<Rightarrow> (case comprehension f xs of Inl e \<Rightarrow> Inl e | Inr ys \<Rightarrow> Inr (y # ys)))"

text \<open>
  \<^verbatim>\<open>sorted(data, key=lambda x: x['codename'])\<close>: the keys are computed first, one per
  element in list order, then the elements are sorted by key, stably. Python compares
  strings by code point, which is the order of \<open>string\<close>.
\<close>

definition sorted_by_codename :: "profile list \<Rightarrow> exn + profile list" where
  "sorted_by_codename data =
     (case comprehension (\<lambda>x. getitem x ''codename'') data of
        Inl e \<Rightarrow> Inl e
      | Inr keys \<Rightarrow> Inr (map snd (sort_key fst (zip keys data))))"

text \<open>Python's \<^verbatim>\<open>str\<close> of a natural number, and \<^verbatim>\<open>"{}_{:05d}".format(codename, n)\<close>.\<close>

fun str_nat :: "nat \<Rightarrow> string" where
  "str_nat n =
     (if n < 10 then [char_of (48 + n)] else str_nat (n div 10) @ [char_of (48 + n mod 10)])"

declare str_nat.simps [simp del]

definition format_display_name :: "string \<Rightarrow> nat \<Rightarrow> string" where
  "format_display_name c n =
     c @ ''_'' @ replicate (5 - length (str_nat n)) CHR ''0'' @ str_nat n"

text \<open>
  The loop over the sorted environment profiles. \<open>code_names_count\<close> is a
  \<^verbatim>\<open>defaultdict(int)\<close> that only counts up from 0, so its values are naturals;
  \<^verbatim>\<open>in\<close> does not insert, and \<^verbatim>\<open>+= 1\<close> on a missing key stores 1.
\<close>

fun environment_loop ::
  "(profile \<Rightarrow> exn + environment) \<Rightarrow> profile list \<Rightarrow>
   (string, nat) dict \<Rightarrow> (string \<times> string) list \<Rightarrow> (string, environment) dict
     \<Rightarrow> exn + ((string \<times> string) list \<times> (string, environment) dict)" where
  "environment_loop Env [] code_names_count environments environment_dict =
     Inr (environments, environment_dict)"
| "environment_loop Env (profile # rest) code_names_count environments environment_dict =
     (case Env profile of
        Inl e \<Rightarrow> Inl e
      | Inr env_obj \<Rightarrow>
         (case getitem profile ''codename'' of
            Inl e \<Rightarrow> Inl e
          | Inr c \<Rightarrow>
             (let environments' =
                    (case map_of code_names_count c of
                       Some n \<Rightarrow> environments @ [(format_display_name c n, e_id env_obj)]
                     | None \<Rightarrow> environments @ [(c, e_id env_obj)]);
                  environment_dict' = AList.update (e_id env_obj) env_obj environment_dict;
                  code_names_count' =
                    AList.update c
                      ((case map_of code_names_count c of Some n \<Rightarrow> n | None \<Rightarrow> 0) + 1)
                      code_names_count
              in environment_loop Env rest code_names_count' environments' environment_dict')))"

fun agent_loop ::
  "(profile \<Rightarrow> exn + agent) \<Rightarrow> profile list \<Rightarrow> (string, agent) dict
     \<Rightarrow> exn + (string, agent) dict" where
  "agent_loop Ag [] agent_dict = Inr agent_dict"
| "agent_loop Ag (profile # rest) agent_dict =
     (case Ag profile of
        Inl e \<Rightarrow> Inl e
      | Inr agent_obj \<Rightarrow> agent_loop Ag rest (AList.update (a_id agent_obj) agent_obj agent_dict))"

text \<open>
  \<^verbatim>\<open>d[k]\<close> on a \<^verbatim>\<open>defaultdict\<close>: a missing key is inserted with the default value, which
  is returned. The result is the value and the dict after the access.
\<close>

definition dd_getitem :: "'v \<Rightarrow> ('k, 'v) dict \<Rightarrow> 'k \<Rightarrow> 'v \<times> ('k, 'v) dict" where
  "dd_getitem dflt d k =
     (case map_of d k of Some v \<Rightarrow> (v, d) | None \<Rightarrow> (dflt, d @ [(k, dflt)]))"

type_synonym relationship_index = "(string, (string, string list) dict) dict"

text \<open>
  \<^verbatim>\<open>relationship_dict[r][a].append(b)\<close> on the
  \<^verbatim>\<open>defaultdict(lambda: defaultdict(list))\<close>; the list and the inner dict are objects of
  the outer dict, so the append is written back.
\<close>

definition rel_append ::
  "relationship_index \<Rightarrow> string \<Rightarrow> string \<Rightarrow> string \<Rightarrow> relationship_index" where
  "rel_append relationship_dict r a b =
     (case dd_getitem [] relationship_dict r of
        (inner, relationship_dict') \<Rightarrow>
          (case dd_getitem [] inner a of
             (neighbors, inner') \<Rightarrow>
               AList.update r (AList.update a (neighbors @ [b]) inner') relationship_dict'))"

fun relationship_loop :: "profile list \<Rightarrow> relationship_index \<Rightarrow> exn + relationship_index" where
  "relationship_loop [] relationship_dict = Inr relationship_dict"
| "relationship_loop (profile # rest) relationship_dict =
     (case getitem profile ''relationship'' of
        Inl e \<Rightarrow> Inl e
      | Inr r \<Rightarrow>
         (case getitem profile ''agent1_id'' of
            Inl e \<Rightarrow> Inl e
          | Inr a1 \<Rightarrow>
             (case getitem profile ''agent2_id'' of
                Inl e \<Rightarrow> Inl e
              | Inr a2 \<Rightarrow>
                  relationship_loop rest
                    (rel_append (rel_append relationship_dict r a1 a2) r a2 a1))))"

text \<open>
  \<^verbatim>\<open>with open(path, 'r') as f: data = [json.loads(line) for line in f.readlines()]\<close>
\<close>

definition read_profiles :: "ext \<Rightarrow> string \<Rightarrow> exn + profile list" where
  "read_profiles X path =
     (case readlines X path of
        Inl e \<Rightarrow> Inl e
      | Inr lines \<Rightarrow> comprehension (json_loads X) lines)"

text \<open>The store: \<^verbatim>\<open>environments, environment_dict, agent_dict, relationship_dict\<close>.\<close>

type_synonym profiles =
  "(string \<times> string) list \<times> (string, environment) dict \<times> (string, agent) dict \<times>
   relationship_index"

text \<open>
  The body of \<^verbatim>\<open>get_sotopia_profiles\<close>, the function that \<^verbatim>\<open>@cache\<close> wraps.
\<close>

definition get_sotopia_profiles_wrapped ::
  "ext \<Rightarrow> string \<Rightarrow> string \<Rightarrow> string \<Rightarrow> exn + profiles" where
  "get_sotopia_profiles_wrapped X env_file agent_file relationship_file =
     (case read_profiles X env_file of
        Inl e \<Rightarrow> Inl e
      | Inr data \<Rightarrow>
     (case sorted_by_codename data of
        Inl e \<Rightarrow> Inl e
      | Inr sorted_data \<Rightarrow>
     (case environment_loop (Environment X) sorted_data [] [] [] of
        Inl e \<Rightarrow> Inl e
      | Inr (environments, environment_dict) \<Rightarrow>
     (case read_profiles X agent_file of
        Inl e \<Rightarrow> Inl e
      | Inr data \<Rightarrow>
     (case agent_loop (Agent X) data [] of
        Inl e \<Rightarrow> Inl e
      | Inr agent_dict \<Rightarrow>
     (case read_profiles X relationship_file of
        Inl e \<Rightarrow> Inl e
      | Inr data \<Rightarrow>
     (case relationship_loop data [] of
        Inl e \<Rightarrow> Inl e
      | Inr relationship_dict \<Rightarrow>
          Inr (environments, environment_dict, agent_dict, relationship_dict))))))))"

text \<open>
  \<^verbatim>\<open>@cache\<close> keeps one result per argument list as the call wrote it, for the life of
  the process, and keeps nothing when the body raises. A call is its list of positional
  arguments; the parameters left out take the defaults.
\<close>

definition ENVIRONMENT_PROFILES :: string where
  "ENVIRONMENT_PROFILES = ''profiles/environment_profiles.jsonl''"

definition AGENT_PROFILES :: string where
  "AGENT_PROFILES = ''profiles/agent_profiles.jsonl''"

definition RELATIONSHIP_PROFILES :: string where
  "RELATIONSHIP_PROFILES = ''profiles/relationship_profiles.jsonl''"

fun call_wrapped :: "ext \<Rightarrow> string list \<Rightarrow> exn + profiles" where
  "call_wrapped X [] =
     get_sotopia_profiles_wrapped X ENVIRONMENT_PROFILES AGENT_PROFILES RELATIONSHIP_PROFILES"
| "call_wrapped X [env_file] =
     get_sotopia_profiles_wrapped X env_file AGENT_PROFILES RELATIONSHIP_PROFILES"
| "call_wrapped X [env_file, agent_file] =
     get_sotopia_profiles_wrapped X env_file agent_file RELATIONSHIP_PROFILES"
| "call_wrapped X [env_file, agent_file, relationship_file] =
     get_sotopia_profiles_wrapped X env_file agent_file relationship_file"
| "call_wrapped X args =
     Inl (TypeError
       (''get_sotopia_profiles() takes from 0 to 3 positional arguments but '' @
        str_nat (length args) @ '' were given''))"

type_synonym cache = "(string list, profiles) dict"

definition get_sotopia_profiles ::
  "ext \<Rightarrow> cache \<Rightarrow> string list \<Rightarrow> (exn + profiles) \<times> cache" where
  "get_sotopia_profiles X memo args =
     (case map_of memo args of
        Some result \<Rightarrow> (Inr result, memo)
      | None \<Rightarrow>
         (case call_wrapped X args of
            Inl e \<Rightarrow> (Inl e, memo)
          | Inr result \<Rightarrow> (Inr result, AList.update args result memo)))"

subsection \<open>Display labels, as the specification words them\<close>

text \<open>
  \<open>occurrences_before cs i\<close> is the number of entries of \<open>cs\<close> before position \<open>i\<close>
  that are equal to the one at \<open>i\<close>. In the codename-sorted order the first record of a
  codename keeps the bare codename, and each later one gets the codename followed by its
  zero-padded sequence number. \<open>read_nat\<close> reads a decimal numeral back, and
  \<open>labels_from\<close> is the labelling loop on codenames alone, \<open>cnt\<close> counting the
  codenames already seen.
\<close>

definition read_nat :: "string \<Rightarrow> nat" where
  "read_nat s = foldl (\<lambda>n c. 10 * n + (of_char c - 48)) 0 s"

definition occurrences_before :: "string list \<Rightarrow> nat \<Rightarrow> nat" where
  "occurrences_before cs i = length (filter (\<lambda>c. c = cs ! i) (take i cs))"

definition display_label :: "string list \<Rightarrow> nat \<Rightarrow> string" where
  "display_label cs i =
     (if occurrences_before cs i = 0 then cs ! i
      else format_display_name (cs ! i) (occurrences_before cs i))"

fun labels_from :: "(string \<Rightarrow> nat) \<Rightarrow> string list \<Rightarrow> string list" where
  "labels_from cnt [] = []"
| "labels_from cnt (c # cs) =
     (if cnt c = 0 then c else format_display_name c (cnt c)) #
     labels_from (cnt(c := cnt c + 1)) cs"

section \<open>The candidate queries\<close>

text \<open>What the queries read of a \<^verbatim>\<open>gr.Dropdown\<close>: its choices, its value, its label.\<close>

record dropdown =
  dd_choices :: "(string \<times> string) list"
  dd_value :: "string option"
  dd_label :: string

text \<open>
  The loop of both queries, \<^verbatim>\<open>for an_id in ids: lst.append((agent_dict[an_id].name,
  an_id))\<close> (the loop variable is \<^verbatim>\<open>agent_id\<close> in one and \<^verbatim>\<open>neighbor_id\<close> in the other);
  \<open>lst\<close> is the list so far. A missing id raises \<^verbatim>\<open>KeyError\<close>.
\<close>

fun agent_choices ::
  "(string, agent) dict \<Rightarrow> string list \<Rightarrow> (string \<times> string) list
     \<Rightarrow> exn + (string \<times> string) list" where
  "agent_choices agent_dict [] lst = Inr lst"
| "agent_choices agent_dict (an_id # rest) lst =
     (case getitem agent_dict an_id of
        Inl e \<Rightarrow> Inl e
      | Inr a \<Rightarrow> agent_choices agent_dict rest (lst @ [(name a, an_id)]))"

text \<open>\<^verbatim>\<open>lst[0][1] if lst else None\<close>\<close>

definition first_choice :: "(string \<times> string) list \<Rightarrow> string option" where
  "first_choice lst = (case lst of [] \<Rightarrow> None | x # _ \<Rightarrow> Some (snd x))"

text \<open>
  Lines 121 to 130, on the store that \<^verbatim>\<open>get_sotopia_profiles()\<close> returned. The order in
  which Python iterates the set \<^verbatim>\<open>unique_agent_ids\<close> is not fixed by the language; it is
  the parameter \<open>iter_set\<close>. Reading \<^verbatim>\<open>relationship_dict[...]\<close> can insert into the
  \<^verbatim>\<open>defaultdict\<close>, so the store after the call is returned with the result, also when
  the call raises.
\<close>

definition user_dropdown_body ::
  "(string set \<Rightarrow> string list) \<Rightarrow> profiles \<Rightarrow> string \<Rightarrow> (exn + dropdown) \<times> profiles" where
  "user_dropdown_body iter_set P environment_id =
     (case P of (environments, environment_dict, agent_dict, relationship_dict) \<Rightarrow>
     (case getitem environment_dict environment_id of
        Inl e \<Rightarrow> (Inl e, P)
      | Inr environment \<Rightarrow>
     (case dd_getitem [] relationship_dict (relationship environment) of
        (inner, relationship_dict') \<Rightarrow>
     (let unique_agent_ids = set (map fst inner);
          P' = (environments, environment_dict, agent_dict, relationship_dict')
      in (case agent_choices agent_dict (iter_set unique_agent_ids) [] of
            Inl e \<Rightarrow> (Inl e, P')
          | Inr user_agents_list \<Rightarrow>
              (Inr \<lparr> dd_choices = user_agents_list,
                     dd_value = first_choice user_agents_list,
                     dd_label = ''User Agent Selection'' \<rparr>, P'))))))"

text \<open>Lines 134 to 140, in the same way.\<close>

definition bot_dropdown_body ::
  "profiles \<Rightarrow> string \<Rightarrow> string \<Rightarrow> (exn + dropdown) \<times> profiles" where
  "bot_dropdown_body P environment_id user_agent_id =
     (case P of (environments, environment_dict, agent_dict, relationship_dict) \<Rightarrow>
     (case getitem environment_dict environment_id of
        Inl e \<Rightarrow> (Inl e, P)
      | Inr environment \<Rightarrow>
     (case getitem agent_dict user_agent_id of
        Inl e \<Rightarrow> (Inl e, P)
      | Inr user_agent \<Rightarrow>
     (case dd_getitem [] relationship_dict (relationship environment) of
        (inner, relationship_dict1) \<Rightarrow>
     (case dd_getitem [] inner (agent_id user_agent) of
        (neighbors, inner') \<Rightarrow>
     (let relationship_dict' =
            AList.update (relationship environment) inner' relationship_dict1;
          P' = (environments, environment_dict, agent_dict, relationship_dict')
      in (case agent_choices agent_dict neighbors [] of
            Inl e \<Rightarrow> (Inl e, P')
          | Inr bot_agent_list \<Rightarrow>
              (Inr \<lparr> dd_choices = bot_agent_list,
                     dd_value = first_choice bot_agent_list,
                     dd_label = ''Bot Agent Selection'' \<rparr>, P'))))))))"

text \<open>
  The two functions of \<^verbatim>\<open>app.py\<close>: the store comes from \<^verbatim>\<open>get_sotopia_profiles()\<close>, and
  it is the object that the cache holds, so what the body wrote to it is in the cache after
  the call.
\<close>

definition create_user_agent_dropdown ::
  "ext \<Rightarrow> (string set \<Rightarrow> string list) \<Rightarrow> cache \<Rightarrow> string \<Rightarrow> (exn + dropdown) \<times> cache" where
  "create_user_agent_dropdown X iter_set memo environment_id =
     (case get_sotopia_profiles X memo [] of
        (Inl e, memo') \<Rightarrow> (Inl e, memo')
      | (Inr P, memo') \<Rightarrow>
          (case user_dropdown_body iter_set P environment_id of
             (result, P') \<Rightarrow> (result, AList.update [] P' memo')))"

definition create_bot_agent_dropdown ::
  "ext \<Rightarrow> cache \<Rightarrow> string \<Rightarrow> string \<Rightarrow> (exn + dropdown) \<times> cache" where
  "create_bot_agent_dropdown X memo environment_id user_agent_id =
     (case get_sotopia_profiles X memo [] of
        (Inl e, memo') \<Rightarrow> (Inl e, memo')
      | (Inr P, memo') \<Rightarrow>
          (case bot_dropdown_body P environment_id user_agent_id of
             (result, P') \<Rightarrow> (result, AList.update [] P' memo')))"

subsection \<open>What the specification calls the relationship index\<close>

text \<open>
  The neighbours of \<open>a\<close> under relationship type \<open>r\<close> that a lookup in the index finds,
  without inserting: none for a missing key.
\<close>

definition neighbors_of :: "relationship_index \<Rightarrow> string \<Rightarrow> string \<Rightarrow> string list" where
  "neighbors_of relationship_dict r a =
     (case map_of relationship_dict r of
        None \<Rightarrow> []
      | Some inner \<Rightarrow> (case map_of inner a of None \<Rightarrow> [] | Some ns \<Rightarrow> ns))"

text \<open>
  An edge is a relationship type and two endpoints. The counterparts of \<open>u\<close> under \<open>r\<close>,
  as the specification words them: for each edge of type \<open>r\<close> in file order, the other
  endpoint if \<open>u\<close> is the first one, then the other endpoint if \<open>u\<close> is the second one.
\<close>

type_synonym edge = "string \<times> string \<times> string"

fun counterparts :: "edge list \<Rightarrow> string \<Rightarrow> string \<Rightarrow> string list" where
  "counterparts [] r u = []"
| "counterparts ((r', a1, a2) # es) r u =
     (if r' = r \<and> a1 = u then [a2] else []) @
     (if r' = r \<and> a2 = u then [a1] else []) @ counterparts es r u"

text \<open>The edge that a parsed line of the relationship file stands for.\<close>

definition edge_of :: "profile \<Rightarrow> exn + edge" where
  "edge_of profile =
     (case getitem profile ''relationship'' of
        Inl e \<Rightarrow> Inl e
      | Inr r \<Rightarrow>
         (case getitem profile ''agent1_id'' of
            Inl e \<Rightarrow> Inl e
          | Inr a1 \<Rightarrow>
             (case getitem profile ''agent2_id'' of
                Inl e \<Rightarrow> Inl e
              | Inr a2 \<Rightarrow> Inr (r, a1, a2))))"

text \<open>
  What every iteration order of a Python set does: each element of the set comes once.
\<close>

definition set_order :: "(string set \<Rightarrow> string list) \<Rightarrow> bool" where
  "set_order iter_set = (\<forall>S. finite S \<longrightarrow> set (iter_set S) = S \<and> distinct (iter_set S))"

text \<open>Every relationship type that is a key of the index has an agent with a neighbour.\<close>

definition index_full :: "relationship_index \<Rightarrow> bool" where
  "index_full relationship_dict =
     (\<forall>r inner. map_of relationship_dict r = Some inner \<longrightarrow>
        (\<exists>a. neighbors_of relationship_dict r a \<noteq> []))"

subsection \<open>The cache over the life of the process\<close>

text \<open>
  What reaches the cache: a call of \<^verbatim>\<open>get_sotopia_profiles\<close> with its arguments, or one of
  the two candidate queries, each with the files as they are at the time of the call.
  \<open>after_calls\<close> is the cache after a sequence of them.
\<close>

datatype call =
    Load ext "string list"
  | UserQuery ext "string set \<Rightarrow> string list" string
  | BotQuery ext string string

fun after_call :: "cache \<Rightarrow> call \<Rightarrow> cache" where
  "after_call memo (Load X args) = snd (get_sotopia_profiles X memo args)"
| "after_call memo (UserQuery X iter_set environment_id) =
     snd (create_user_agent_dropdown X iter_set memo environment_id)"
| "after_call memo (BotQuery X environment_id user_agent_id) =
     snd (create_bot_agent_dropdown X memo environment_id user_agent_id)"

fun after_calls :: "cache \<Rightarrow> call list \<Rightarrow> cache" where
  "after_calls memo [] = memo"
| "after_calls memo (c # calls) = after_calls (after_call memo c) calls"

fun is_load :: "call \<Rightarrow> bool" where
  "is_load (Load X args) = True"
| "is_load (UserQuery X iter_set environment_id) = False"
| "is_load (BotQuery X environment_id user_agent_id) = False"

text \<open>
  Two stores with the same display list, the same environment and agent dicts, and the
  same neighbours for every agent under every relationship type.
\<close>

definition same_store :: "profiles \<Rightarrow> profiles \<Rightarrow> bool" where
  "same_store P P' =
     (fst P' = fst P \<and> fst (snd P') = fst (snd P) \<and> fst (snd (snd P')) = fst (snd (snd P)) \<and>
      (\<forall>r a. neighbors_of (snd (snd (snd P'))) r a = neighbors_of (snd (snd (snd P))) r a))"

subsection \<open>A concrete store\<close>

text \<open>
  Two environments with the codename \<open>negotiation\<close>, one for friends and one for
  strangers; three agents; three edges between friends, one of them twice; no edge between
  strangers. A line that is not in the table is not valid JSON.
\<close>

definition demo_lines :: "(string, profile) dict" where
  "demo_lines =
     [(''{env_id: e2, codename: negotiation, relationship: friend}'',
         [(''env_id'', ''e2''), (''codename'', ''negotiation''), (''relationship'', ''friend'')]),
      (''{env_id: e1, codename: negotiation, relationship: stranger}'',
         [(''env_id'', ''e1''), (''codename'', ''negotiation''), (''relationship'', ''stranger'')]),
      (''{agent_id: a1, name: Ada}'', [(''agent_id'', ''a1''), (''name'', ''Ada'')]),
      (''{agent_id: a2, name: Bob}'', [(''agent_id'', ''a2''), (''name'', ''Bob'')]),
      (''{agent_id: a3, name: Cy}'', [(''agent_id'', ''a3''), (''name'', ''Cy'')]),
      (''{relationship: friend, agent1_id: a1, agent2_id: a2}'',
         [(''relationship'', ''friend''), (''agent1_id'', ''a1''), (''agent2_id'', ''a2'')]),
      (''{relationship: friend, agent1_id: a3, agent2_id: a1}'',
         [(''relationship'', ''friend''), (''agent1_id'', ''a3''), (''agent2_id'', ''a1'')])]"

definition demo_files :: "(string, string list) dict" where
  "demo_files =
     [(''profiles/environment_profiles.jsonl'',
         [''{env_id: e2, codename: negotiation, relationship: friend}'',
          ''{env_id: e1, codename: negotiation, relationship: stranger}'']),
      (''profiles/agent_profiles.jsonl'',
         [''{agent_id: a1, name: Ada}'', ''{agent_id: a2, name: Bob}'',
          ''{agent_id: a3, name: Cy}'']),
      (''profiles/relationship_profiles.jsonl'',
         [''{relationship: friend, agent1_id: a1, agent2_id: a2}'',
          ''{relationship: friend, agent1_id: a3, agent2_id: a1}'',
          ''{relationship: friend, agent1_id: a1, agent2_id: a2}'']),
      (''profiles/broken.jsonl'',
         [''{agent_id: a1, name: Ada}'', ''{agent_id: a2, name'']),
      (''profiles/empty.jsonl'', [])]"

definition demo_Environment :: "profile \<Rightarrow> exn + environment" where
  "demo_Environment profile =
     (case getitem profile ''env_id'' of
        Inl e \<Rightarrow> Inl e
      | Inr i \<Rightarrow>
         (case getitem profile ''codename'' of
            Inl e \<Rightarrow> Inl e
          | Inr c \<Rightarrow>
             (case getitem profile ''relationship'' of
                Inl e \<Rightarrow> Inl e
              | Inr r \<Rightarrow>
                  Inr \<lparr> e_id = i, codename = c, scenario = '''', agent_goals = [],
                        relationship = r \<rparr>)))"

definition demo_Agent :: "profile \<Rightarrow> exn + agent" where
  "demo_Agent profile =
     (case getitem profile ''agent_id'' of
        Inl e \<Rightarrow> Inl e
      | Inr i \<Rightarrow>
         (case getitem profile ''name'' of
            Inl e \<Rightarrow> Inl e
          | Inr n \<Rightarrow>
              Inr \<lparr> name = n, a_id = i, agent_id = i, background = '''',
                    personality = '''' \<rparr>))"

definition demo_ext :: ext where
  "demo_ext =
     \<lparr> readlines = (\<lambda>path. case map_of demo_files path of
                               None \<Rightarrow> Inl (OSError path) | Some ls \<Rightarrow> Inr ls),
       json_loads = (\<lambda>line. case map_of demo_lines line of
                               None \<Rightarrow> Inl (JSONDecodeError line) | Some p \<Rightarrow> Inr p),
       Environment = demo_Environment,
       Agent = demo_Agent \<rparr>"

text \<open>The same paths after every file has been emptied.\<close>

definition emptied_ext :: ext where
  "emptied_ext = demo_ext \<lparr> readlines := (\<lambda>path. Inr []) \<rparr>"

text \<open>An iteration order for sets of strings: ascending.\<close>

definition ascending :: "string set \<Rightarrow> string list" where
  "ascending S = sorted_list_of_set S"

text \<open>The store that loading the concrete files gives, and a cache that holds it.\<close>

definition demo_environments :: "(string \<times> string) list" where
  "demo_environments = [(''negotiation'', ''e2''), (''negotiation_00001'', ''e1'')]"

definition demo_environment_dict :: "(string, environment) dict" where
  "demo_environment_dict =
     [(''e2'', \<lparr> e_id = ''e2'', codename = ''negotiation'', scenario = '''',
                  agent_goals = [], relationship = ''friend'' \<rparr>),
      (''e1'', \<lparr> e_id = ''e1'', codename = ''negotiation'', scenario = '''',
                  agent_goals = [], relationship = ''stranger'' \<rparr>)]"

definition demo_agent_dict :: "(string, agent) dict" where
  "demo_agent_dict =
     [(''a1'', \<lparr> name = ''Ada'', a_id = ''a1'', agent_id = ''a1'', background = '''',
                  personality = '''' \<rparr>),
      (''a2'', \<lparr> name = ''Bob'', a_id = ''a2'', agent_id = ''a2'', background = '''',
                  personality = '''' \<rparr>),
      (''a3'', \<lparr> name = ''Cy'', a_id = ''a3'', agent_id = ''a3'', background = '''',
                  personality = '''' \<rparr>)]"

definition demo_relationship_dict :: relationship_index where
  "demo_relationship_dict =
     [(''friend'',
         [(''a1'', [''a2'', ''a3'', ''a2'']), (''a2'', [''a1'', ''a1'']), (''a3'', [''a1''])])]"

definition demo_profiles :: profiles where
  "demo_profiles =
     (demo_environments, demo_environment_dict, demo_agent_dict, demo_relationship_dict)"

definition demo_memo :: cache where
  "demo_memo = [([], demo_profiles)]"

section \<open>Properties of the chat turn\<close>

lemma str_contains_iff: "str_contains sub s \<longleftrightarrow> (\<exists>ps ss. s = ps @ sub @ ss)"
proof (induction s)
  case Nil
  then show ?case by auto
next
  case (Cons c cs)
  have here: "(take (length sub) (c # cs) = sub) \<longleftrightarrow> (\<exists>ss. c # cs = sub @ ss)"
    by (metis append_eq_conv_conj append_take_drop_id)
  have "(\<exists>ps ss. c # cs = ps @ sub @ ss) \<longleftrightarrow>
      (\<exists>ss. c # cs = sub @ ss) \<or> (\<exists>ps ss. cs = ps @ sub @ ss)"
  proof
    assume "\<exists>ps ss. c # cs = ps @ sub @ ss"
    then obtain ps ss where eq: "c # cs = ps @ sub @ ss" by blast
    show "(\<exists>ss. c # cs = sub @ ss) \<or> (\<exists>ps ss. cs = ps @ sub @ ss)"
      using eq by (cases ps) auto
  next
    assume "(\<exists>ss. c # cs = sub @ ss) \<or> (\<exists>ps ss. cs = ps @ sub @ ss)"
    then show "\<exists>ps ss. c # cs = ps @ sub @ ss"
    proof
      assume "\<exists>ss. c # cs = sub @ ss"
      then show ?thesis by (metis append_Nil)
    next
      assume "\<exists>ps ss. cs = ps @ sub @ ss"
      then show ?thesis by (metis append_Cons)
    qed
  qed
  with here show ?case using Cons.IH by simp
qed

lemma retry_loop_fail:
  "attempts_fail f n t s \<Longrightarrow> fst (retry_loop f n t output s out) = output"
  by (induction n arbitrary: s out) (auto split: prod.splits sum.splits)

lemma retry_loop_success:
  "fst (f s t) = Inr r \<Longrightarrow> retry_loop f (Suc n) t output s out = (r, snd (f s t), out)"
  by (cases "f s t") auto

lemma deterministic_attempts_fail:
  "deterministic f \<Longrightarrow> fst (f s t) = Inl e \<Longrightarrow> attempts_fail f n t s"
proof (induction n arbitrary: s)
  case 0
  then show ?case by simp
next
  case (Suc n)
  obtain s' where step: "f s t = (Inl e, s')"
    using Suc.prems(2) by (cases "f s t") auto
  have "fst (f s' t) = Inl e"
    using Suc.prems unfolding deterministic_def by metis
  then have "attempts_fail f n t s'"
    using Suc.IH Suc.prems(1) by blast
  with step show ?case by simp
qed

lemma deterministic_retry_log:
  "deterministic f \<Longrightarrow> fst (f s t) = Inl e \<Longrightarrow>
   snd (snd (retry_loop f n t output s out)) =
     out @ concat (replicate n [PrintExn e, PrintStr ''Retrying...''])"
proof (induction n arbitrary: s out)
  case 0
  then show ?case by simp
next
  case (Suc n)
  obtain s' where step: "f s t = (Inl e, s')"
    using Suc.prems(2) by (cases "f s t") auto
  have "fst (f s' t) = Inl e"
    using Suc.prems unfolding deterministic_def by metis
  then have "snd (snd (retry_loop f n t output s' (out @ [PrintExn e, PrintStr ''Retrying...'']))) =
      (out @ [PrintExn e, PrintStr ''Retrying...'']) @
      concat (replicate n [PrintExn e, PrintStr ''Retrying...''])"
    using Suc.IH Suc.prems(1) by blast
  with step show ?case by simp
qed

lemma prepare_model_unsupported:
  "\<not> str_contains ''cmu-lti/sotopia-pi-mistral-7b-BC_SR'' model_name \<Longrightarrow>
   \<not> str_contains ''mistralai/Mistral-7B-Instruct-v0.1'' model_name \<Longrightarrow>
   prepare_model L model_name = Inl (RuntimeError (''Model '' @ model_name @ '' not supported''))"
  by (simp add: prepare_model_def)

lemma demo_raw_completion:
  "raw_completion demo_llm ''hello'' [] '''' demo_agent demo_agent
     ''mistralai/Mistral-7B-Instruct-v0.1'' = Inr ''###''"
  by (simp add: raw_completion_def prepare_model_def demo_llm_def demo_agent_def)

lemma always_raises_fail: "attempts_fail always_raises n t ()"
  by (induction n) (simp_all add: always_raises_def)

lemma retry_loop_trace:
  "attempts_fail f n t s \<Longrightarrow>
   retry_loop f n t output s out =
     (output, state_after f n t s, out @ retry_log (raised f n t s))"
proof (induction n arbitrary: s out)
  case 0
  then show ?case by (simp add: retry_log_def)
next
  case (Suc n)
  from Suc.prems obtain e s' where step: "f s t = (Inl e, s')" and
    rest: "attempts_fail f n t s'"
    by (auto split: prod.splits sum.splits)
  have "retry_loop f n t output s' (out @ [PrintExn e, PrintStr ''Retrying...'']) =
      (output, state_after f n t s',
       (out @ [PrintExn e, PrintStr ''Retrying...'']) @ retry_log (raised f n t s'))"
    using rest by (rule Suc.IH)
  then show ?case
    using step by (simp add: retry_log_def)
qed

lemma raised_length: "attempts_fail f n t s \<Longrightarrow> length (raised f n t s) = n"
  by (induction n arbitrary: s) (auto split: prod.splits sum.splits)

text \<open>
  C1, as the claim states it, fails: when the sanitizer raises on each of the five attempts,
  the chat turn returns the empty string, with no placeholder text and no exception.
  Here the model answers \<open>###\<close> and the sanitizer raises on every call.
\<close>

theorem run_chat_silent_empty_counterexample:
  "attempts_fail always_raises 5 ''###'' ()
   \<and> fst (sanitize_reply always_raises ''###'' ()) = ''''
   \<and> raw_completion demo_llm ''hello'' [] '''' demo_agent demo_agent
        ''mistralai/Mistral-7B-Instruct-v0.1'' = Inr ''###''
   \<and> fst (run_chat demo_llm always_raises () ''hello'' [] '''' demo_agent demo_agent
        ''mistralai/Mistral-7B-Instruct-v0.1'') = Inr ''''"
  by (simp add: run_chat_def raw_completion_def prepare_model_def demo_llm_def demo_agent_def
      sanitize_reply_def always_raises_def numeral_eq_Suc)

text \<open>
  C1, amended: for every raw completion on which the sanitizer raises on each of the five
  attempts, lines 245 to 253 call the sanitizer five times, print each of the five
  exceptions followed by \<^verbatim>\<open>Retrying...\<close>, and leave the empty string (the initial value
  of \<^verbatim>\<open>output\<close>) to be returned, whatever the raw completion is; and a chat turn whose
  earlier lines produce that raw completion returns the empty string after these prints.
  Nothing is raised and no placeholder is returned.
\<close>

theorem run_chat_unsanitizable_returns_empty:
  assumes "attempts_fail format_bot_message 5 text_output s"
  shows "sanitize_reply format_bot_message text_output s =
           ('''', state_after format_bot_message 5 text_output s,
            retry_log (raised format_bot_message 5 text_output s))
         \<and> length (raised format_bot_message 5 text_output s) = 5
         \<and> (raw_completion L message history instructions user_agent_dropdown
               bot_agent_dropdown model_selection = Inr text_output \<longrightarrow>
             run_chat L format_bot_message s message history instructions
               user_agent_dropdown bot_agent_dropdown model_selection =
               (Inr '''', state_after format_bot_message 5 text_output s,
                retry_log (raised format_bot_message 5 text_output s)))"
proof -
  have loop: "sanitize_reply format_bot_message text_output s =
           ('''', state_after format_bot_message 5 text_output s,
            retry_log (raised format_bot_message 5 text_output s))"
    unfolding sanitize_reply_def using retry_loop_trace [OF assms, of "''''" "[]"] by simp
  have five: "length (raised format_bot_message 5 text_output s) = 5"
    using assms by (rule raised_length)
  show ?thesis
    using loop five by (simp add: run_chat_def)
qed

theorem run_chat_unsanitizable_returns_empty_witness:
  "attempts_fail always_raises 5 ''###'' ()
   \<and> raw_completion demo_llm ''hello'' [] '''' demo_agent demo_agent
        ''mistralai/Mistral-7B-Instruct-v0.1'' = Inr ''###''
   \<and> sanitize_reply always_raises ''###'' () =
        ('''', (), concat (replicate 5 [PrintExn (Exception ''no reply span''),
                                       PrintStr ''Retrying...'']))
   \<and> run_chat demo_llm always_raises () ''hello'' [] '''' demo_agent demo_agent
        ''mistralai/Mistral-7B-Instruct-v0.1'' =
        (Inr '''', (), concat (replicate 5 [PrintExn (Exception ''no reply span''),
                                            PrintStr ''Retrying...'']))"
proof -
  have log: "retry_log (raised always_raises 5 ''###'' ()) =
      concat (replicate 5 [PrintExn (Exception ''no reply span''), PrintStr ''Retrying...''])"
    by (simp add: retry_log_def always_raises_def numeral_eq_Suc)
  show ?thesis
    using always_raises_fail [of 5 "''###''"] demo_raw_completion log
      run_chat_unsanitizable_returns_empty [OF always_raises_fail, of "''###''" demo_llm
        "''hello''" "[]" "''''" demo_agent demo_agent "''mistralai/Mistral-7B-Instruct-v0.1''"]
    by simp
qed

text \<open>
  C6: when the sanitizer is a deterministic function of its input text, the loop of up to
  five attempts returns what one attempt returns; and when that attempt raises \<open>e\<close>, each
  of the five attempts raises, and what is printed is \<open>e\<close> and \<^verbatim>\<open>Retrying...\<close> five
  times over.
\<close>

theorem retry_loop_equals_single_attempt:
  assumes "deterministic format_bot_message"
  shows "fst (sanitize_reply format_bot_message text_output s) =
           sanitize_once format_bot_message text_output s
         \<and> (case fst (format_bot_message s text_output) of
              Inr r \<Rightarrow> snd (snd (sanitize_reply format_bot_message text_output s)) = []
            | Inl e \<Rightarrow>
                attempts_fail format_bot_message 5 text_output s
                \<and> snd (snd (sanitize_reply format_bot_message text_output s)) =
                    concat (replicate 5 [PrintExn e, PrintStr ''Retrying...'']))"
proof (cases "fst (format_bot_message s text_output)")
  case (Inl e)
  have fail: "attempts_fail format_bot_message 5 text_output s"
    using assms Inl by (rule deterministic_attempts_fail)
  have "fst (sanitize_reply format_bot_message text_output s) = ''''"
    unfolding sanitize_reply_def using fail by (rule retry_loop_fail)
  moreover have "snd (snd (sanitize_reply format_bot_message text_output s)) =
      concat (replicate 5 [PrintExn e, PrintStr ''Retrying...''])"
    unfolding sanitize_reply_def using deterministic_retry_log [OF assms Inl, of 5 "''''" "[]"]
    by simp
  ultimately show ?thesis
    using Inl fail by (simp add: sanitize_once_def)
next
  case (Inr r)
  have "retry_loop format_bot_message (Suc 4) text_output '''' s [] =
      (r, snd (format_bot_message s text_output), [])"
    using Inr by (rule retry_loop_success)
  then have "sanitize_reply format_bot_message text_output s =
      (r, snd (format_bot_message s text_output), [])"
    by (simp add: sanitize_reply_def)
  then show ?thesis
    using Inr by (simp add: sanitize_once_def)
qed

theorem retry_loop_equals_single_attempt_witness:
  "deterministic counting_sanitizer
   \<and> fst (sanitize_reply counting_sanitizer ''###'' 0) = ''###''
   \<and> fst (sanitize_reply counting_sanitizer '''' 0) = ''''
   \<and> attempts_fail counting_sanitizer 5 '''' 0
   \<and> snd (snd (sanitize_reply counting_sanitizer '''' 0)) =
       concat (replicate 5 [PrintExn (Exception ''empty''), PrintStr ''Retrying...''])"
proof -
  have det: "deterministic counting_sanitizer"
    by (simp add: deterministic_def counting_sanitizer_def)
  show ?thesis
    using det retry_loop_equals_single_attempt [OF det, of "''###''" 0]
      retry_loop_equals_single_attempt [OF det, of "''''" 0]
    by (simp add: sanitize_once_def counting_sanitizer_def)
qed

lemma run_chat_unsupported_model:
  assumes "getattr user_agent_dropdown ''value'' = Inr user_value"
    and "getattr user_value ''name'' = Inr user_name"
    and "getattr bot_agent_dropdown ''value'' = Inr bot_value"
    and "getattr bot_value ''name'' = Inr bot_name"
    and "\<not> str_contains ''cmu-lti/sotopia-pi-mistral-7b-BC_SR'' model_name"
    and "\<not> str_contains ''mistralai/Mistral-7B-Instruct-v0.1'' model_name"
  shows "run_chat L format_bot_message s message history instructions
           user_agent_dropdown bot_agent_dropdown model_name =
         (Inl (RuntimeError (''Model '' @ model_name @ '' not supported'')), s, [])"
  using assms by (simp add: run_chat_def raw_completion_def prepare_model_unsupported)

text \<open>
  C10: the model-selection dropdown offers \<open>GPT3.5\<close>, and \<^verbatim>\<open>prepare_model\<close> raises
  \<^verbatim>\<open>RuntimeError\<close> for it; but a chat turn submitted with \<open>GPT3.5\<close> selected does not
  end in that \<^verbatim>\<open>RuntimeError\<close>: with an agent id or \<^verbatim>\<open>None\<close> as the user-agent
  argument, which is what the chat interface passes, the first line of \<^verbatim>\<open>run_chat\<close>
  raises \<^verbatim>\<open>AttributeError\<close> before \<^verbatim>\<open>prepare_model\<close> is called, whatever the message,
  the history, the bot-agent argument, the model library and the sanitizer.
\<close>

theorem gpt35_turn_raises_attribute_error:
  "''GPT3.5'' \<in> set model_name_choices
   \<and> prepare_model L ''GPT3.5'' = Inl (RuntimeError ''Model GPT3.5 not supported'')
   \<and> run_chat L format_bot_message s message history instructions
        (PyStr user_agent_id) bot_agent_dropdown ''GPT3.5'' =
        (Inl (AttributeError ''str'' ''value''), s, [])
   \<and> run_chat L format_bot_message s message history instructions
        PyNone bot_agent_dropdown ''GPT3.5'' =
        (Inl (AttributeError ''NoneType'' ''value''), s, [])"
proof -
  have "prepare_model L ''GPT3.5'' = Inl (RuntimeError (''Model '' @ ''GPT3.5'' @ '' not supported''))"
    by (rule prepare_model_unsupported) simp_all
  then show ?thesis
    by (simp add: model_name_choices_def run_chat_def raw_completion_def)
qed


section \<open>Properties of the loader\<close>

lemma demo_load: "call_wrapped demo_ext [] = Inr demo_profiles"
  by code_simp

lemma comprehension_Inl:
  "x \<in> set xs \<Longrightarrow> f x = Inl e \<Longrightarrow> \<exists>e'. comprehension f xs = Inl e'"
  by (induction xs) (auto split: sum.splits)

lemma read_profiles_bad_line:
  "readlines X path = Inr lines \<Longrightarrow> line \<in> set lines \<Longrightarrow> json_loads X line = Inl e \<Longrightarrow>
   \<exists>e'. read_profiles X path = Inl e'"
  using comprehension_Inl [of line lines "json_loads X" e] by (simp add: read_profiles_def)

lemma wrapped_fails:
  "(\<exists>e. read_profiles X env_file = Inl e) \<or> (\<exists>e. read_profiles X agent_file = Inl e) \<or>
   (\<exists>e. read_profiles X relationship_file = Inl e) \<Longrightarrow>
   \<exists>e. get_sotopia_profiles_wrapped X env_file agent_file relationship_file = Inl e"
  by (auto simp: get_sotopia_profiles_wrapped_def split: sum.splits prod.splits)

lemma cached_failure:
  "map_of memo args = None \<Longrightarrow> call_wrapped X args = Inl e \<Longrightarrow>
   get_sotopia_profiles X memo args = (Inl e, memo)"
  by (simp add: get_sotopia_profiles_def)

lemma cache_hit:
  "map_of memo args = Some P \<Longrightarrow> get_sotopia_profiles X memo args = (Inr P, memo)"
  by (simp add: get_sotopia_profiles_def)

lemma cache_filled:
  "get_sotopia_profiles X memo args = (Inr P, memo') \<Longrightarrow> map_of memo' args = Some P"
  by (auto simp: get_sotopia_profiles_def update_conv' split: option.splits sum.splits)

lemma cache_kept:
  "map_of memo args = Some P \<Longrightarrow> map_of (snd (get_sotopia_profiles X memo args')) args = Some P"
  by (auto simp: get_sotopia_profiles_def update_conv' split: option.splits sum.splits)

text \<open>
  C8: when a line of one of the three files is not valid JSON, the body of the load raises,
  and a call through the cache that has no entry for these arguments raises and leaves the
  cache as it was: no store is returned and none is kept.
\<close>

theorem malformed_line_fails_load:
  assumes "path = env_file \<or> path = agent_file \<or> path = relationship_file"
    and "readlines X path = Inr lines"
    and "line \<in> set lines"
    and "json_loads X line = Inl e"
  shows "(\<exists>e'. get_sotopia_profiles_wrapped X env_file agent_file relationship_file = Inl e')
         \<and> (map_of memo [env_file, agent_file, relationship_file] = None \<longrightarrow>
              (\<exists>e'. get_sotopia_profiles X memo [env_file, agent_file, relationship_file] =
                      (Inl e', memo)))"
proof -
  have "\<exists>e'. read_profiles X path = Inl e'"
    using assms(2-4) by (rule read_profiles_bad_line)
  then have "\<exists>e'. get_sotopia_profiles_wrapped X env_file agent_file relationship_file = Inl e'"
    using assms(1) wrapped_fails [of X env_file agent_file relationship_file] by blast
  then obtain e' where
    e': "call_wrapped X [env_file, agent_file, relationship_file] = Inl e'"
    by auto
  show ?thesis
  proof (intro conjI impI)
    show "\<exists>e'. get_sotopia_profiles_wrapped X env_file agent_file relationship_file = Inl e'"
      using e' by auto
  next
    assume "map_of memo [env_file, agent_file, relationship_file] = None"
    then have "get_sotopia_profiles X memo [env_file, agent_file, relationship_file] = (Inl e', memo)"
      using e' by (rule cached_failure)
    then show "\<exists>e'. get_sotopia_profiles X memo [env_file, agent_file, relationship_file] =
                      (Inl e', memo)"
      by blast
  qed
qed

theorem malformed_line_fails_load_witness:
  "readlines demo_ext ''profiles/broken.jsonl'' =
     Inr [''{agent_id: a1, name: Ada}'', ''{agent_id: a2, name'']
   \<and> json_loads demo_ext ''{agent_id: a2, name'' = Inl (JSONDecodeError ''{agent_id: a2, name'')
   \<and> get_sotopia_profiles_wrapped demo_ext ENVIRONMENT_PROFILES ''profiles/broken.jsonl''
        RELATIONSHIP_PROFILES = Inl (JSONDecodeError ''{agent_id: a2, name'')
   \<and> get_sotopia_profiles demo_ext []
        [ENVIRONMENT_PROFILES, ''profiles/broken.jsonl'', RELATIONSHIP_PROFILES] =
       (Inl (JSONDecodeError ''{agent_id: a2, name''), [])"
proof -
  have r: "readlines demo_ext ''profiles/broken.jsonl'' =
      Inr [''{agent_id: a1, name: Ada}'', ''{agent_id: a2, name'']"
    by (simp add: demo_ext_def demo_files_def)
  have j: "json_loads demo_ext ''{agent_id: a2, name'' =
      Inl (JSONDecodeError ''{agent_id: a2, name'')"
    by (simp add: demo_ext_def demo_lines_def)
  have w: "get_sotopia_profiles_wrapped demo_ext ENVIRONMENT_PROFILES ''profiles/broken.jsonl''
        RELATIONSHIP_PROFILES = Inl (JSONDecodeError ''{agent_id: a2, name'')"
    by code_simp
  have "\<exists>e'. get_sotopia_profiles demo_ext []
        [ENVIRONMENT_PROFILES, ''profiles/broken.jsonl'', RELATIONSHIP_PROFILES] = (Inl e', [])"
    using malformed_line_fails_load
      [of "''profiles/broken.jsonl''" ENVIRONMENT_PROFILES "''profiles/broken.jsonl''"
          RELATIONSHIP_PROFILES demo_ext
          "[''{agent_id: a1, name: Ada}'', ''{agent_id: a2, name'']" "''{agent_id: a2, name''"
          "JSONDecodeError ''{agent_id: a2, name''" "[]"]
      r j
    by simp
  then show ?thesis
    using r j w by (auto simp: get_sotopia_profiles_def)
qed

section \<open>Properties of the relationship index and the queries\<close>

lemma fst_dd_getitem:
  "fst (dd_getitem v d k) = (case map_of d k of None \<Rightarrow> v | Some x \<Rightarrow> x)"
  by (simp add: dd_getitem_def split: option.splits)

lemma map_of_dd_getitem:
  "map_of (snd (dd_getitem v d k)) k' =
     (if k' = k \<and> map_of d k = None then Some v else map_of d k')"
  by (auto simp: dd_getitem_def map_add_def split: option.splits)

lemma map_of_rel_append:
  "map_of (rel_append rd r a b) r' =
     (if r' = r
      then Some (AList.update a (neighbors_of rd r a @ [b])
                  (snd (dd_getitem [] (case map_of rd r of None \<Rightarrow> [] | Some i \<Rightarrow> i) a)))
      else map_of rd r')"
proof -
  obtain inner rd1 where o: "dd_getitem [] rd r = (inner, rd1)"
    by (cases "dd_getitem [] rd r")
  obtain ns inner1 where i: "dd_getitem [] inner a = (ns, inner1)"
    by (cases "dd_getitem [] inner a")
  have inner: "inner = (case map_of rd r of None \<Rightarrow> [] | Some i \<Rightarrow> i)"
    using fst_dd_getitem [of "[]" rd r] o by simp
  have ns: "ns = neighbors_of rd r a"
    using fst_dd_getitem [of "[]" inner a] i inner
    by (simp add: neighbors_of_def split: option.splits)
  have rd1: "map_of rd1 r' = (if r' = r \<and> map_of rd r = None then Some [] else map_of rd r')"
    using map_of_dd_getitem [of "[]" rd r r'] o by simp
  have "rel_append rd r a b = AList.update r (AList.update a (ns @ [b]) inner1) rd1"
    by (simp add: rel_append_def o i)
  then show ?thesis
    using rd1 i inner ns by (simp add: update_conv')
qed

lemma neighbors_rel_append:
  "neighbors_of (rel_append rd r a b) r' a' =
     (if r' = r \<and> a' = a then neighbors_of rd r a @ [b] else neighbors_of rd r' a')"
proof (cases "r' = r")
  case False
  then show ?thesis
    by (simp add: neighbors_of_def [of "rel_append rd r a b"] map_of_rel_append neighbors_of_def)
next
  case True
  show ?thesis
    unfolding True neighbors_of_def [of "rel_append rd r a b"] map_of_rel_append
    by (simp add: update_conv' map_of_dd_getitem neighbors_of_def split: option.splits)
qed

lemma index_full_rel_append:
  assumes "index_full rd"
  shows "index_full (rel_append rd r a b)"
  unfolding index_full_def
proof (intro allI impI)
  fix r' inner
  assume "map_of (rel_append rd r a b) r' = Some inner"
  show "\<exists>a'. neighbors_of (rel_append rd r a b) r' a' \<noteq> []"
  proof (cases "r' = r")
    case True
    have "neighbors_of (rel_append rd r a b) r a \<noteq> []"
      by (simp add: neighbors_rel_append)
    then show ?thesis using True by blast
  next
    case False
    then have "map_of rd r' = Some inner"
      using \<open>map_of (rel_append rd r a b) r' = Some inner\<close> by (simp add: map_of_rel_append)
    then obtain a' where "neighbors_of rd r' a' \<noteq> []"
      using assms unfolding index_full_def by blast
    then have "neighbors_of (rel_append rd r a b) r' a' \<noteq> []"
      using False by (simp add: neighbors_rel_append)
    then show ?thesis by blast
  qed
qed

lemma index_full_relationship_loop:
  "index_full rd \<Longrightarrow> relationship_loop data rd = Inr rd' \<Longrightarrow> index_full rd'"
proof (induction data arbitrary: rd)
  case Nil
  then show ?case by simp
next
  case (Cons p data)
  from Cons.prems(2) obtain r a1 a2 where
    rest: "relationship_loop data (rel_append (rel_append rd r a1 a2) r a2 a1) = Inr rd'"
    by (auto split: sum.splits)
  have "index_full (rel_append (rel_append rd r a1 a2) r a2 a1)"
    using Cons.prems(1) by (intro index_full_rel_append)
  then show ?case
    using Cons.IH rest by blast
qed

lemma index_full_empty: "index_full []"
  by (simp add: index_full_def)

lemma wrapped_index_full:
  "get_sotopia_profiles_wrapped X ef af rf = Inr (envs, ed, ad, rd) \<Longrightarrow> index_full rd"
  by (auto simp: get_sotopia_profiles_wrapped_def split: sum.splits prod.splits
      intro: index_full_relationship_loop [OF index_full_empty])

lemma set_order_empty: "set_order iter_set \<Longrightarrow> iter_set {} = []"
  unfolding set_order_def by (metis finite.emptyI set_empty)

lemma set_order_ascending: "set_order ascending"
  by (simp add: set_order_def ascending_def)

lemma create_user_agent_dropdown_on:
  "get_sotopia_profiles X memo [] = (Inr P, memo') \<Longrightarrow>
   create_user_agent_dropdown X iter_set memo environment_id =
     (fst (user_dropdown_body iter_set P environment_id),
      AList.update [] (snd (user_dropdown_body iter_set P environment_id)) memo')"
  by (simp add: create_user_agent_dropdown_def split: prod.splits)

lemma create_bot_agent_dropdown_on:
  "get_sotopia_profiles X memo [] = (Inr P, memo') \<Longrightarrow>
   create_bot_agent_dropdown X memo environment_id user_agent_id =
     (fst (bot_dropdown_body P environment_id user_agent_id),
      AList.update [] (snd (bot_dropdown_body P environment_id user_agent_id)) memo')"
  by (simp add: create_bot_agent_dropdown_def split: prod.splits)

lemma demo_cached: "get_sotopia_profiles demo_ext demo_memo [] = (Inr demo_profiles, demo_memo)"
  by (simp add: get_sotopia_profiles_def demo_memo_def)

text \<open>
  What a query can write: the display list, the environment dict and the agent dict stay
  as they are, and so does the neighbour list that the index gives for each relationship
  type and agent; the index itself can gain keys.
\<close>

lemma neighbors_of_dd_getitem:
  "neighbors_of (snd (dd_getitem [] rd r)) r' a = neighbors_of rd r' a"
  by (simp add: neighbors_of_def map_of_dd_getitem split: option.splits)

lemma user_dropdown_body_writes:
  "\<exists>rd'. snd (user_dropdown_body iter_set (environments, environment_dict, agent_dict, rd)
              environment_id) = (environments, environment_dict, agent_dict, rd') \<and>
         (\<forall>r a. neighbors_of rd' r a = neighbors_of rd r a)"
proof (cases "map_of environment_dict environment_id")
  case None
  then show ?thesis
    by (simp add: user_dropdown_body_def getitem_def)
next
  case (Some env)
  have "snd (user_dropdown_body iter_set (environments, environment_dict, agent_dict, rd)
              environment_id) =
        (environments, environment_dict, agent_dict, snd (dd_getitem [] rd (relationship env)))"
    using Some
    by (auto simp: user_dropdown_body_def getitem_def Let_def split: prod.splits sum.splits)
  then show ?thesis
    by (simp add: neighbors_of_dd_getitem)
qed

lemma bot_dropdown_body_writes:
  "\<exists>rd'. snd (bot_dropdown_body (environments, environment_dict, agent_dict, rd)
              environment_id user_agent_id) =
           (environments, environment_dict, agent_dict, rd') \<and>
         (\<forall>r a. neighbors_of rd' r a = neighbors_of rd r a)"
proof (cases "map_of environment_dict environment_id")
  case None
  then show ?thesis
    by (simp add: bot_dropdown_body_def getitem_def)
next
  case env: (Some env)
  show ?thesis
  proof (cases "map_of agent_dict user_agent_id")
    case None
    then show ?thesis
      using env by (simp add: bot_dropdown_body_def getitem_def)
  next
    case (Some user_agent)
    define inner where "inner = fst (dd_getitem [] rd (relationship env))"
    define rd1 where "rd1 = snd (dd_getitem [] rd (relationship env))"
    define inner' where "inner' = snd (dd_getitem [] inner (agent_id user_agent))"
    define rd' where "rd' = AList.update (relationship env) inner' rd1"
    have "snd (bot_dropdown_body (environments, environment_dict, agent_dict, rd)
              environment_id user_agent_id) =
          (environments, environment_dict, agent_dict, rd')"
      using env Some
      by (auto simp: bot_dropdown_body_def getitem_def Let_def inner_def rd1_def inner'_def
          rd'_def split: prod.splits sum.splits)
    moreover have "neighbors_of rd' r a = neighbors_of rd r a" for r a
    proof (cases "r = relationship env")
      case False
      then show ?thesis
        by (simp add: rd'_def rd1_def neighbors_of_def update_conv' map_of_dd_getitem)
    next
      case True
      have "map_of inner' a = (if a = agent_id user_agent \<and> map_of inner a = None
                                then Some [] else map_of inner a)"
        by (auto simp: inner'_def map_of_dd_getitem)
      moreover have "map_of rd' r = Some inner'"
        using True by (simp add: rd'_def update_conv')
      moreover have "neighbors_of rd r a = (case map_of inner a of None \<Rightarrow> [] | Some ns \<Rightarrow> ns)"
        using True by (simp add: neighbors_of_def inner_def fst_dd_getitem split: option.splits)
      ultimately show ?thesis
        by (auto simp: neighbors_of_def)
    qed
    ultimately show ?thesis by blast
  qed
qed

text \<open>
  On the store as a load returned it (from the files \<open>X0\<close> of that time), an environment
  whose relationship type gives no agent a neighbour has no entry in the index, and the
  user-candidate query returns a dropdown with no choice and no value.
\<close>

lemma as_loaded_no_edges_gives_empty_user_dropdown:
  assumes "set_order iter_set"
    and "call_wrapped X0 [] = Inr (environments, environment_dict, agent_dict, relationship_dict)"
    and "get_sotopia_profiles X memo [] =
           (Inr (environments, environment_dict, agent_dict, relationship_dict), memo')"
    and "map_of environment_dict environment_id = Some env"
    and "\<forall>a. neighbors_of relationship_dict (relationship env) a = []"
  shows "fst (create_user_agent_dropdown X iter_set memo environment_id) =
           Inr \<lparr> dd_choices = [], dd_value = None, dd_label = ''User Agent Selection'' \<rparr>"
proof -
  have "index_full relationship_dict"
    using assms(2) by (auto intro: wrapped_index_full)
  then have none: "map_of relationship_dict (relationship env) = None"
    using assms(5) unfolding index_full_def by (cases "map_of relationship_dict (relationship env)") auto
  have "fst (user_dropdown_body iter_set
          (environments, environment_dict, agent_dict, relationship_dict) environment_id) =
        Inr \<lparr> dd_choices = [], dd_value = None, dd_label = ''User Agent Selection'' \<rparr>"
    using assms(4) none set_order_empty [OF assms(1)]
    by (simp add: user_dropdown_body_def getitem_def dd_getitem_def first_choice_def)
  then show ?thesis
    using create_user_agent_dropdown_on [OF assms(3)] by simp
qed

text \<open>
  C9: the user-candidate query does not return an empty list for every environment whose
  relationship type has zero edges. No edge of the concrete files is between strangers,
  the relationship type of \<open>e1\<close>. Once the bot-candidate query has been asked for \<open>e1\<close>
  and \<open>a1\<close>, the index of the memoized store holds \<open>a1\<close> under that type, with no
  neighbour; the index still gives no agent a neighbour among strangers, and the
  user-candidate query for \<open>e1\<close> offers \<open>a1\<close> and selects it.
\<close>

theorem user_dropdown_offers_agent_without_edge:
  "snd (get_sotopia_profiles demo_ext [] []) = demo_memo
   \<and> after_call demo_memo (BotQuery demo_ext ''e1'' ''a1'') =
        [([], demo_environments, demo_environment_dict, demo_agent_dict,
          demo_relationship_dict @ [(''stranger'', [(''a1'', [])])])]
   \<and> map_of demo_environment_dict ''e1'' =
        Some \<lparr> e_id = ''e1'', codename = ''negotiation'', scenario = [], agent_goals = [],
               relationship = ''stranger'' \<rparr>
   \<and> (\<forall>a. neighbors_of (demo_relationship_dict @ [(''stranger'', [(''a1'', [])])])
             ''stranger'' a = [])
   \<and> fst (create_user_agent_dropdown demo_ext ascending
            (after_call demo_memo (BotQuery demo_ext ''e1'' ''a1'')) ''e1'') =
        Inr \<lparr> dd_choices = [(''Ada'', ''a1'')], dd_value = Some ''a1'',
               dd_label = ''User Agent Selection'' \<rparr>"
proof -
  have loaded: "snd (get_sotopia_profiles demo_ext [] []) = demo_memo"
    by code_simp
  have bot: "after_call demo_memo (BotQuery demo_ext ''e1'' ''a1'') =
        [([], demo_environments, demo_environment_dict, demo_agent_dict,
          demo_relationship_dict @ [(''stranger'', [(''a1'', [])])])]"
    by code_simp
  have env: "map_of demo_environment_dict ''e1'' =
        Some \<lparr> e_id = ''e1'', codename = ''negotiation'', scenario = [], agent_goals = [],
               relationship = ''stranger'' \<rparr>"
    by (simp add: demo_environment_dict_def)
  have none: "\<forall>a. neighbors_of (demo_relationship_dict @ [(''stranger'', [(''a1'', [])])])
             ''stranger'' a = []"
    by (simp add: demo_relationship_dict_def neighbors_of_def)
  have user: "fst (create_user_agent_dropdown demo_ext ascending
            (after_call demo_memo (BotQuery demo_ext ''e1'' ''a1'')) ''e1'') =
        Inr \<lparr> dd_choices = [(''Ada'', ''a1'')], dd_value = Some ''a1'',
               dd_label = ''User Agent Selection'' \<rparr>"
    by code_simp
  show ?thesis
    using loaded bot env none user by blast
qed

text \<open>
  C5, as the claim states it, fails: for an environment and a user agent of the store with
  no counterpart, the bot-candidate query raises nothing and returns a dropdown. Here
  agent \<open>a1\<close> has no neighbour among strangers, the relationship type of \<open>e1\<close>.
\<close>

theorem bot_dropdown_empty_counterexample:
  "neighbors_of demo_relationship_dict ''stranger'' ''a1'' = []
   \<and> fst (create_bot_agent_dropdown demo_ext demo_memo ''e1'' ''a1'') =
        Inr \<lparr> dd_choices = [], dd_value = None, dd_label = ''Bot Agent Selection'' \<rparr>"
  by code_simp

text \<open>
  C5, amended: for every environment and user agent of the store such that the index gives
  the user agent no counterpart under the environment's relationship type, the
  bot-candidate query raises nothing and returns a dropdown with no choice and with value
  \<^verbatim>\<open>None\<close>; the first element of the empty list is not read.
\<close>

theorem no_counterpart_gives_empty_bot_dropdown:
  assumes "get_sotopia_profiles X memo [] =
             (Inr (environments, environment_dict, agent_dict, relationship_dict), memo')"
    and "map_of environment_dict environment_id = Some env"
    and "map_of agent_dict user_agent_id = Some user_agent"
    and "neighbors_of relationship_dict (relationship env) (agent_id user_agent) = []"
  shows "fst (create_bot_agent_dropdown X memo environment_id user_agent_id) =
           Inr \<lparr> dd_choices = [], dd_value = None, dd_label = ''Bot Agent Selection'' \<rparr>"
proof -
  have "fst (dd_getitem []
          (fst (dd_getitem [] relationship_dict (relationship env))) (agent_id user_agent)) = []"
    using assms(4) by (simp add: fst_dd_getitem neighbors_of_def split: option.splits)
  then have "fst (bot_dropdown_body
          (environments, environment_dict, agent_dict, relationship_dict)
          environment_id user_agent_id) =
        Inr \<lparr> dd_choices = [], dd_value = None, dd_label = ''Bot Agent Selection'' \<rparr>"
    using assms(2,3)
    by (auto simp: bot_dropdown_body_def getitem_def first_choice_def Let_def split: prod.splits)
  then show ?thesis
    using create_bot_agent_dropdown_on [OF assms(1)] by simp
qed

theorem no_counterpart_gives_empty_bot_dropdown_witness:
  "get_sotopia_profiles demo_ext demo_memo [] = (Inr demo_profiles, demo_memo)
   \<and> map_of demo_environment_dict ''e1'' =
        Some \<lparr> e_id = ''e1'', codename = ''negotiation'', scenario = [], agent_goals = [],
               relationship = ''stranger'' \<rparr>
   \<and> map_of demo_agent_dict ''a3'' =
        Some \<lparr> name = ''Cy'', a_id = ''a3'', agent_id = ''a3'', background = [],
               personality = [] \<rparr>
   \<and> neighbors_of demo_relationship_dict ''stranger'' ''a3'' = []
   \<and> fst (create_bot_agent_dropdown demo_ext demo_memo ''e1'' ''a3'') =
        Inr \<lparr> dd_choices = [], dd_value = None, dd_label = ''Bot Agent Selection'' \<rparr>"
proof -
  have env: "map_of demo_environment_dict ''e1'' =
        Some \<lparr> e_id = ''e1'', codename = ''negotiation'', scenario = [], agent_goals = [],
               relationship = ''stranger'' \<rparr>"
    by (simp add: demo_environment_dict_def)
  have ag: "map_of demo_agent_dict ''a3'' =
        Some \<lparr> name = ''Cy'', a_id = ''a3'', agent_id = ''a3'', background = [],
               personality = [] \<rparr>"
    by (simp add: demo_agent_dict_def)
  have none: "neighbors_of demo_relationship_dict ''stranger'' ''a3'' = []"
    by (simp add: demo_relationship_dict_def neighbors_of_def)
  have none': "neighbors_of demo_relationship_dict
        (relationship \<lparr> e_id = ''e1'', codename = ''negotiation'', scenario = [],
           agent_goals = [], relationship = ''stranger'' \<rparr>)
        (agent_id \<lparr> name = ''Cy'', a_id = ''a3'', agent_id = ''a3'', background = [],
               personality = [] \<rparr>) = []"
    using none by simp
  show ?thesis
    using demo_cached env ag none
      no_counterpart_gives_empty_bot_dropdown
        [OF demo_cached [unfolded demo_profiles_def] env ag none']
    by blast
qed

text \<open>
  C4: a candidate query writes to the memoized store. The index of the concrete store has
  no entry for strangers; the user-candidate query for \<open>e1\<close> leaves one there, empty, and
  the bot-candidate query for \<open>e1\<close> and \<open>a1\<close> leaves \<open>a1\<close> in it without a neighbour,
  after which the user-candidate query for \<open>e1\<close> offers \<open>a1\<close>, an agent with no edge
  among strangers.
\<close>

theorem query_writes_to_memoized_store:
  "map_of demo_memo [] = Some demo_profiles
   \<and> snd (create_user_agent_dropdown demo_ext ascending demo_memo ''e1'') =
        [([], demo_environments, demo_environment_dict, demo_agent_dict,
          demo_relationship_dict @ [(''stranger'', [])])]
   \<and> snd (create_user_agent_dropdown demo_ext ascending demo_memo ''e1'') \<noteq> demo_memo
   \<and> snd (create_bot_agent_dropdown demo_ext demo_memo ''e1'' ''a1'') =
        [([], demo_environments, demo_environment_dict, demo_agent_dict,
          demo_relationship_dict @ [(''stranger'', [(''a1'', [])])])]
   \<and> snd (create_bot_agent_dropdown demo_ext demo_memo ''e1'' ''a1'') \<noteq> demo_memo
   \<and> fst (create_user_agent_dropdown demo_ext ascending demo_memo ''e1'') =
        Inr \<lparr> dd_choices = [], dd_value = None, dd_label = ''User Agent Selection'' \<rparr>
   \<and> fst (create_user_agent_dropdown demo_ext ascending
            (snd (create_bot_agent_dropdown demo_ext demo_memo ''e1'' ''a1'')) ''e1'') =
        Inr \<lparr> dd_choices = [(''Ada'', ''a1'')], dd_value = Some ''a1'',
               dd_label = ''User Agent Selection'' \<rparr>"
  by code_simp


lemma relationship_loop_counterparts:
  "relationship_loop data rd = Inr rd' \<Longrightarrow>
   \<exists>edges. comprehension edge_of data = Inr edges \<and>
     (\<forall>r a. neighbors_of rd' r a = neighbors_of rd r a @ counterparts edges r a)"
proof (induction data arbitrary: rd)
  case Nil
  then show ?case by simp
next
  case (Cons p data)
  from Cons.prems obtain r0 a1 a2 where
    edge: "edge_of p = Inr (r0, a1, a2)" and
    rest: "relationship_loop data (rel_append (rel_append rd r0 a1 a2) r0 a2 a1) = Inr rd'"
    by (auto simp: edge_of_def split: sum.splits)
  from Cons.IH [OF rest] obtain edges where
    edges: "comprehension edge_of data = Inr edges" and
    nb: "\<And>r a. neighbors_of rd' r a =
           neighbors_of (rel_append (rel_append rd r0 a1 a2) r0 a2 a1) r a @ counterparts edges r a"
    by blast
  have "comprehension edge_of (p # data) = Inr ((r0, a1, a2) # edges)"
    using edge edges by simp
  moreover have "\<forall>r a. neighbors_of rd' r a =
      neighbors_of rd r a @ counterparts ((r0, a1, a2) # edges) r a"
    by (simp add: nb neighbors_rel_append)
  ultimately show ?case by blast
qed

lemma wrapped_index_is_counterparts:
  assumes "get_sotopia_profiles_wrapped X ef af rf = Inr (envs, ed, ad, rd)"
  shows "\<exists>data edges. read_profiles X rf = Inr data \<and> comprehension edge_of data = Inr edges \<and>
     (\<forall>r a. neighbors_of rd r a = counterparts edges r a)"
proof -
  from assms obtain data where
    data: "read_profiles X rf = Inr data" and loop: "relationship_loop data [] = Inr rd"
    by (auto simp: get_sotopia_profiles_wrapped_def split: sum.splits prod.splits)
  from relationship_loop_counterparts [OF loop] obtain edges where
    "comprehension edge_of data = Inr edges"
    "\<forall>r a. neighbors_of rd r a = neighbors_of [] r a @ counterparts edges r a"
    by blast
  then show ?thesis
    using data by (auto simp: neighbors_of_def)
qed

lemma counterparts_undirected:
  "(r, a, b) \<in> set edges \<Longrightarrow>
   b \<in> set (counterparts edges r a) \<and> a \<in> set (counterparts edges r b)"
  by (induction edges) auto

lemma agent_choices_known:
  "\<forall>n \<in> set ns. map_of agent_dict n \<noteq> None \<Longrightarrow>
   \<exists>res. agent_choices agent_dict ns lst = Inr (lst @ res) \<and> map snd res = ns \<and>
     (\<forall>(nm, n) \<in> set res. \<exists>a. map_of agent_dict n = Some a \<and> nm = name a)"
proof (induction ns arbitrary: lst)
  case Nil
  then show ?case by simp
next
  case (Cons n ns)
  from Cons.prems obtain a where a: "map_of agent_dict n = Some a" by auto
  from Cons.prems have "\<forall>n \<in> set ns. map_of agent_dict n \<noteq> None" by simp
  from Cons.IH [OF this, of "lst @ [(name a, n)]"] obtain res where
    res: "agent_choices agent_dict ns (lst @ [(name a, n)]) = Inr ((lst @ [(name a, n)]) @ res)"
      "map snd res = ns"
      "\<forall>(nm, n) \<in> set res. \<exists>a. map_of agent_dict n = Some a \<and> nm = name a"
    by blast
  have c: "agent_choices agent_dict (n # ns) lst = Inr (lst @ ((name a, n) # res))"
    using a res(1) by (simp add: getitem_def)
  have m: "map snd ((name a, n) # res) = n # ns"
    using res(2) by simp
  have k: "\<forall>(nm, n) \<in> set ((name a, n) # res). \<exists>a. map_of agent_dict n = Some a \<and> nm = name a"
    using a res(3) by auto
  from c m k have "agent_choices agent_dict (n # ns) lst = Inr (lst @ ((name a, n) # res)) \<and>
      map snd ((name a, n) # res) = n # ns \<and>
      (\<forall>(nm, n) \<in> set ((name a, n) # res). \<exists>a. map_of agent_dict n = Some a \<and> nm = name a)"
    by (intro conjI)
  then show ?case by (rule exI)
qed

lemma bot_dropdown_body_result:
  assumes "map_of environment_dict environment_id = Some env"
    and "map_of agent_dict user_agent_id = Some user_agent"
    and "agent_choices agent_dict
           (neighbors_of relationship_dict (relationship env) (agent_id user_agent)) [] = Inr lst"
  shows "fst (bot_dropdown_body (environments, environment_dict, agent_dict, relationship_dict)
               environment_id user_agent_id) =
         Inr \<lparr> dd_choices = lst, dd_value = first_choice lst,
                dd_label = ''Bot Agent Selection'' \<rparr>"
proof -
  have "fst (dd_getitem []
          (fst (dd_getitem [] relationship_dict (relationship env))) (agent_id user_agent)) =
        neighbors_of relationship_dict (relationship env) (agent_id user_agent)"
    by (simp add: fst_dd_getitem neighbors_of_def split: option.splits)
  then show ?thesis
    using assms
    by (auto simp: bot_dropdown_body_def getitem_def Let_def split: prod.splits)
qed

text \<open>
  C2: when the store that the query obtains is the store as a load returned it (from the
  files \<open>X0\<close> of that time), the index gives every agent, under every relationship type,
  the other endpoints of the edges of that type at the agent, in the order of the lines of
  the relationship file and as many times as there are such edges; each edge gives each of
  its endpoints the other one; and for an environment and a user agent of the store whose
  counterparts are all known agents, the choices of the bot-candidate dropdown are those
  counterparts, each with the name of its agent, and its value is the first of them.
\<close>

theorem bot_candidates_are_counterparts:
  assumes "call_wrapped X0 [] = Inr (environments, environment_dict, agent_dict, relationship_dict)"
    and "get_sotopia_profiles X memo [] =
           (Inr (environments, environment_dict, agent_dict, relationship_dict), memo')"
    and "read_profiles X0 RELATIONSHIP_PROFILES = Inr data"
    and "comprehension edge_of data = Inr edges"
    and "map_of environment_dict environment_id = Some env"
    and "map_of agent_dict user_agent_id = Some user_agent"
    and "\<forall>n \<in> set (counterparts edges (relationship env) (agent_id user_agent)).
           map_of agent_dict n \<noteq> None"
  shows "(\<forall>r a. neighbors_of relationship_dict r a = counterparts edges r a)
         \<and> (\<forall>(r, a, b) \<in> set edges.
               b \<in> set (neighbors_of relationship_dict r a) \<and>
               a \<in> set (neighbors_of relationship_dict r b))
         \<and> (\<exists>d. fst (create_bot_agent_dropdown X memo environment_id user_agent_id) = Inr d
               \<and> map snd (dd_choices d) =
                   counterparts edges (relationship env) (agent_id user_agent)
               \<and> (\<forall>(nm, n) \<in> set (dd_choices d).
                     \<exists>a. map_of agent_dict n = Some a \<and> nm = name a)
               \<and> dd_value d = first_choice (dd_choices d))"
proof -
  have "get_sotopia_profiles_wrapped X0 ENVIRONMENT_PROFILES AGENT_PROFILES RELATIONSHIP_PROFILES =
      Inr (environments, environment_dict, agent_dict, relationship_dict)"
    using assms(1) by simp
  from wrapped_index_is_counterparts [OF this] obtain data' edges' where
    "read_profiles X0 RELATIONSHIP_PROFILES = Inr data'"
    "comprehension edge_of data' = Inr edges'"
    "\<forall>r a. neighbors_of relationship_dict r a = counterparts edges' r a"
    by blast
  then have index: "\<forall>r a. neighbors_of relationship_dict r a = counterparts edges r a"
    using assms(3,4) by simp
  have undirected: "\<forall>(r, a, b) \<in> set edges.
      b \<in> set (neighbors_of relationship_dict r a) \<and> a \<in> set (neighbors_of relationship_dict r b)"
    using index counterparts_undirected by auto
  from agent_choices_known [OF assms(7), of "[]"] obtain lst where
    lst: "agent_choices agent_dict
            (counterparts edges (relationship env) (agent_id user_agent)) [] = Inr lst"
      "map snd lst = counterparts edges (relationship env) (agent_id user_agent)"
      "\<forall>(nm, n) \<in> set lst. \<exists>a. map_of agent_dict n = Some a \<and> nm = name a"
    by auto
  have "fst (bot_dropdown_body (environments, environment_dict, agent_dict, relationship_dict)
               environment_id user_agent_id) =
         Inr \<lparr> dd_choices = lst, dd_value = first_choice lst,
                dd_label = ''Bot Agent Selection'' \<rparr>"
    using assms(5,6) lst(1) index by (intro bot_dropdown_body_result) simp_all
  then have "fst (create_bot_agent_dropdown X memo environment_id user_agent_id) =
         Inr \<lparr> dd_choices = lst, dd_value = first_choice lst,
                dd_label = ''Bot Agent Selection'' \<rparr>"
    using create_bot_agent_dropdown_on [OF assms(2)] by simp
  then have "\<exists>d. fst (create_bot_agent_dropdown X memo environment_id user_agent_id) = Inr d
               \<and> map snd (dd_choices d) =
                   counterparts edges (relationship env) (agent_id user_agent)
               \<and> (\<forall>(nm, n) \<in> set (dd_choices d).
                     \<exists>a. map_of agent_dict n = Some a \<and> nm = name a)
               \<and> dd_value d = first_choice (dd_choices d)"
    using lst(2,3) by simp
  then show ?thesis
    using index undirected by blast
qed


theorem bot_candidates_are_counterparts_witness:
  "call_wrapped demo_ext [] = Inr demo_profiles
   \<and> get_sotopia_profiles demo_ext demo_memo [] = (Inr demo_profiles, demo_memo)
   \<and> (\<exists>data. read_profiles demo_ext RELATIONSHIP_PROFILES = Inr data
         \<and> comprehension edge_of data =
             Inr [(''friend'', ''a1'', ''a2''), (''friend'', ''a3'', ''a1''),
                  (''friend'', ''a1'', ''a2'')])
   \<and> counterparts [(''friend'', ''a1'', ''a2''), (''friend'', ''a3'', ''a1''),
                    (''friend'', ''a1'', ''a2'')] ''friend'' ''a1'' = [''a2'', ''a3'', ''a2'']
   \<and> neighbors_of demo_relationship_dict ''friend'' ''a1'' = [''a2'', ''a3'', ''a2'']
   \<and> ''a1'' \<in> set (neighbors_of demo_relationship_dict ''friend'' ''a3'')
   \<and> (\<exists>d. fst (create_bot_agent_dropdown demo_ext demo_memo ''e2'' ''a1'') = Inr d
         \<and> map snd (dd_choices d) = [''a2'', ''a3'', ''a2'']
         \<and> dd_value d = first_choice (dd_choices d))"
proof -
  define data where "data =
     [[(''relationship'', ''friend''), (''agent1_id'', ''a1''), (''agent2_id'', ''a2'')],
      [(''relationship'', ''friend''), (''agent1_id'', ''a3''), (''agent2_id'', ''a1'')],
      [(''relationship'', ''friend''), (''agent1_id'', ''a1''), (''agent2_id'', ''a2'')]]"
  define edges where "edges =
     [(''friend'', ''a1'', ''a2''), (''friend'', ''a3'', ''a1''), (''friend'', ''a1'', ''a2'')]"
  have rfile: "read_profiles demo_ext RELATIONSHIP_PROFILES = Inr data"
    unfolding data_def by code_simp
  have parsed: "comprehension edge_of data = Inr edges"
    unfolding data_def edges_def by code_simp
  have env: "map_of demo_environment_dict ''e2'' =
        Some \<lparr> e_id = ''e2'', codename = ''negotiation'', scenario = [], agent_goals = [],
               relationship = ''friend'' \<rparr>"
    by (simp add: demo_environment_dict_def)
  have ag: "map_of demo_agent_dict ''a1'' =
        Some \<lparr> name = ''Ada'', a_id = ''a1'', agent_id = ''a1'', background = [],
               personality = [] \<rparr>"
    by (simp add: demo_agent_dict_def)
  have cp: "counterparts edges ''friend'' ''a1'' = [''a2'', ''a3'', ''a2'']"
    by (simp add: edges_def)
  have known: "\<forall>n \<in> set (counterparts edges
        (relationship \<lparr> e_id = ''e2'', codename = ''negotiation'', scenario = [],
           agent_goals = [], relationship = ''friend'' \<rparr>)
        (agent_id \<lparr> name = ''Ada'', a_id = ''a1'', agent_id = ''a1'', background = [],
           personality = [] \<rparr>)). map_of demo_agent_dict n \<noteq> None"
    by (simp add: cp demo_agent_dict_def)
  have third: "(''friend'', ''a3'', ''a1'') \<in> set edges"
    by (simp add: edges_def)
  note main = bot_candidates_are_counterparts
        [OF demo_load [unfolded demo_profiles_def] demo_cached [unfolded demo_profiles_def]
            rfile parsed env ag known]
  have "neighbors_of demo_relationship_dict ''friend'' ''a1'' = [''a2'', ''a3'', ''a2'']"
    using main cp by simp
  moreover have "''a1'' \<in> set (neighbors_of demo_relationship_dict ''friend'' ''a3'')"
    using main third by blast
  moreover have "\<exists>d. fst (create_bot_agent_dropdown demo_ext demo_memo ''e2'' ''a1'') = Inr d
         \<and> map snd (dd_choices d) = [''a2'', ''a3'', ''a2'']
         \<and> dd_value d = first_choice (dd_choices d)"
    using main cp by auto
  ultimately show ?thesis
    using demo_load demo_cached rfile parsed cp unfolding edges_def by blast
qed

section \<open>Properties of the cache\<close>

lemma same_store_refl: "same_store P P"
  by (simp add: same_store_def)

lemma same_store_trans: "same_store P Q \<Longrightarrow> same_store Q R \<Longrightarrow> same_store P R"
  by (simp add: same_store_def)

lemma user_dropdown_body_same:
  "same_store P (snd (user_dropdown_body iter_set P environment_id))"
proof -
  obtain environments environment_dict agent_dict rd where
    P: "P = (environments, environment_dict, agent_dict, rd)"
    by (cases P)
  from user_dropdown_body_writes [of iter_set environments environment_dict agent_dict rd
      environment_id]
  show ?thesis
    unfolding P by (auto simp: same_store_def)
qed

lemma bot_dropdown_body_same:
  "same_store P (snd (bot_dropdown_body P environment_id user_agent_id))"
proof -
  obtain environments environment_dict agent_dict rd where
    P: "P = (environments, environment_dict, agent_dict, rd)"
    by (cases P)
  from bot_dropdown_body_writes [of environments environment_dict agent_dict rd
      environment_id user_agent_id]
  show ?thesis
    unfolding P by (auto simp: same_store_def)
qed

lemma user_query_other_entry:
  "args \<noteq> [] \<Longrightarrow>
   map_of (snd (create_user_agent_dropdown X iter_set memo environment_id)) args =
     map_of (snd (get_sotopia_profiles X memo [])) args"
  by (auto simp: create_user_agent_dropdown_def update_conv' split: prod.splits sum.splits)

lemma bot_query_other_entry:
  "args \<noteq> [] \<Longrightarrow>
   map_of (snd (create_bot_agent_dropdown X memo environment_id user_agent_id)) args =
     map_of (snd (get_sotopia_profiles X memo [])) args"
  by (auto simp: create_bot_agent_dropdown_def update_conv' split: prod.splits sum.splits)

lemma after_call_keeps:
  assumes "map_of memo args = Some P"
  shows "\<exists>P'. map_of (after_call memo c) args = Some P' \<and> same_store P P' \<and>
           (args \<noteq> [] \<or> is_load c \<longrightarrow> P' = P)"
proof (cases c)
  case (Load X args')
  have "map_of (after_call memo c) args = Some P"
    using assms Load by (simp add: cache_kept)
  then show ?thesis
    using same_store_refl by blast
next
  case (UserQuery X iter_set environment_id)
  show ?thesis
  proof (cases "args = []")
    case True
    have hit: "get_sotopia_profiles X memo [] = (Inr P, memo)"
      using assms True by (simp add: cache_hit)
    have "map_of (after_call memo c) args =
        Some (snd (user_dropdown_body iter_set P environment_id))"
      using UserQuery True create_user_agent_dropdown_on [OF hit, of iter_set environment_id]
      by (simp add: update_conv')
    then show ?thesis
      using True UserQuery user_dropdown_body_same by auto
  next
    case False
    have "map_of (after_call memo c) args = Some P"
      using assms False UserQuery by (simp add: user_query_other_entry cache_kept)
    then show ?thesis
      using same_store_refl by blast
  qed
next
  case (BotQuery X environment_id user_agent_id)
  show ?thesis
  proof (cases "args = []")
    case True
    have hit: "get_sotopia_profiles X memo [] = (Inr P, memo)"
      using assms True by (simp add: cache_hit)
    have "map_of (after_call memo c) args =
        Some (snd (bot_dropdown_body P environment_id user_agent_id))"
      using BotQuery True
        create_bot_agent_dropdown_on [OF hit, of environment_id user_agent_id]
      by (simp add: update_conv')
    then show ?thesis
      using True BotQuery bot_dropdown_body_same by auto
  next
    case False
    have "map_of (after_call memo c) args = Some P"
      using assms False BotQuery by (simp add: bot_query_other_entry cache_kept)
    then show ?thesis
      using same_store_refl by blast
  qed
qed

lemma after_calls_keeps:
  "map_of memo args = Some P \<Longrightarrow>
   \<exists>P'. map_of (after_calls memo calls) args = Some P' \<and> same_store P P' \<and>
     (args \<noteq> [] \<or> list_all is_load calls \<longrightarrow> P' = P)"
proof (induction calls arbitrary: memo P)
  case Nil
  then show ?case
    using same_store_refl by simp
next
  case (Cons c calls)
  from after_call_keeps [OF Cons.prems, of c] obtain P1 where
    one: "map_of (after_call memo c) args = Some P1" "same_store P P1"
      "args \<noteq> [] \<or> is_load c \<longrightarrow> P1 = P"
    by blast
  from Cons.IH [OF one(1)] obtain P2 where
    two: "map_of (after_calls (after_call memo c) calls) args = Some P2" "same_store P1 P2"
      "args \<noteq> [] \<or> list_all is_load calls \<longrightarrow> P2 = P1"
    by blast
  have "same_store P P2"
    using one(2) two(2) by (rule same_store_trans)
  moreover have "args \<noteq> [] \<or> list_all is_load (c # calls) \<longrightarrow> P2 = P"
    using one(3) two(3) by auto
  ultimately show ?case
    using two(1) by auto
qed

text \<open>
  C7, as the claim states it, fails: two calls that name the same three source paths are
  not served by one load when the argument lists differ. After a call with no arguments
  has returned the store of the three default paths, a call that writes these paths out
  runs the body again and stores a second entry; and once the files have changed (here,
  been emptied), it returns a different store from the same three paths.
\<close>

theorem same_paths_other_arguments_counterexample:
  "[ENVIRONMENT_PROFILES, AGENT_PROFILES, RELATIONSHIP_PROFILES] =
     [''profiles/environment_profiles.jsonl'', ''profiles/agent_profiles.jsonl'',
      ''profiles/relationship_profiles.jsonl'']
   \<and> get_sotopia_profiles demo_ext [] [] = (Inr demo_profiles, demo_memo)
   \<and> get_sotopia_profiles demo_ext demo_memo
        [''profiles/environment_profiles.jsonl'', ''profiles/agent_profiles.jsonl'',
         ''profiles/relationship_profiles.jsonl''] =
        (Inr demo_profiles,
         demo_memo @
           [([''profiles/environment_profiles.jsonl'', ''profiles/agent_profiles.jsonl'',
              ''profiles/relationship_profiles.jsonl''], demo_profiles)])
   \<and> get_sotopia_profiles emptied_ext demo_memo
        [''profiles/environment_profiles.jsonl'', ''profiles/agent_profiles.jsonl'',
         ''profiles/relationship_profiles.jsonl''] =
        (Inr ([], [], [], []),
         demo_memo @
           [([''profiles/environment_profiles.jsonl'', ''profiles/agent_profiles.jsonl'',
              ''profiles/relationship_profiles.jsonl''], ([], [], [], []))])
   \<and> demo_profiles \<noteq> ([], [], [], [])"
  by code_simp

text \<open>
  C7, amended: once a call of the load has returned a store, every later call with the same
  list of arguments, as the call writes them, is answered from the cache without running
  the body, whatever loads and candidate queries came in between and whatever the files
  hold by then. What it returns has the display list, the environment dict, the agent dict
  and the neighbour lists of the first result; and it is the first result itself when the
  list of arguments is not empty or only loads came in between.
\<close>

theorem repeated_call_is_answered_from_cache:
  assumes "get_sotopia_profiles X memo args = (Inr P, memo')"
  shows "\<exists>P'. get_sotopia_profiles X' (after_calls memo' calls) args =
                (Inr P', after_calls memo' calls)
              \<and> same_store P P'
              \<and> (args \<noteq> [] \<or> list_all is_load calls \<longrightarrow> P' = P)"
proof -
  have "map_of memo' args = Some P"
    using assms by (rule cache_filled)
  from after_calls_keeps [OF this, of calls] obtain P' where
    P': "map_of (after_calls memo' calls) args = Some P'" "same_store P P'"
      "args \<noteq> [] \<or> list_all is_load calls \<longrightarrow> P' = P"
    by blast
  have "get_sotopia_profiles X' (after_calls memo' calls) args =
      (Inr P', after_calls memo' calls)"
    using P'(1) by (rule cache_hit)
  then show ?thesis
    using P'(2,3) by blast
qed

theorem repeated_call_is_answered_from_cache_witness:
  "get_sotopia_profiles demo_ext [] [] = (Inr demo_profiles, demo_memo)
   \<and> list_all is_load [Load demo_ext [''profiles/empty.jsonl'']]
   \<and> get_sotopia_profiles emptied_ext
        (after_calls demo_memo [Load demo_ext [''profiles/empty.jsonl'']]) [] =
        (Inr demo_profiles, after_calls demo_memo [Load demo_ext [''profiles/empty.jsonl'']])
   \<and> (\<exists>P'. get_sotopia_profiles emptied_ext
               (after_calls demo_memo [UserQuery demo_ext ascending ''e1'']) [] =
               (Inr P', after_calls demo_memo [UserQuery demo_ext ascending ''e1''])
             \<and> same_store demo_profiles P')"
proof -
  have first: "get_sotopia_profiles demo_ext [] [] = (Inr demo_profiles, demo_memo)"
    using demo_load by (simp add: get_sotopia_profiles_def demo_memo_def)
  have loads: "list_all is_load [Load demo_ext [''profiles/empty.jsonl'']]"
    by simp
  have "get_sotopia_profiles emptied_ext
        (after_calls demo_memo [Load demo_ext [''profiles/empty.jsonl'']]) [] =
        (Inr demo_profiles, after_calls demo_memo [Load demo_ext [''profiles/empty.jsonl'']])"
    using repeated_call_is_answered_from_cache
      [OF first, of emptied_ext "[Load demo_ext [''profiles/empty.jsonl'']]"] loads
    by auto
  moreover have "\<exists>P'. get_sotopia_profiles emptied_ext
               (after_calls demo_memo [UserQuery demo_ext ascending ''e1'']) [] =
               (Inr P', after_calls demo_memo [UserQuery demo_ext ascending ''e1''])
             \<and> same_store demo_profiles P'"
    using repeated_call_is_answered_from_cache
      [OF first, of emptied_ext "[UserQuery demo_ext ascending ''e1'']"]
    by blast
  ultimately show ?thesis
    using first loads by blast
qed

section \<open>Properties of the display list\<close>

lemma read_nat_snoc: "read_nat (s @ [c]) = 10 * read_nat s + (of_char c - 48)"
  by (simp add: read_nat_def)

lemma read_nat_str_nat: "read_nat (str_nat n) = n"
proof (induction n rule: str_nat.induct)
  case (1 n)
  show ?case
  proof (cases "n < 10")
    case True
    then have "(48 + n) mod 256 = 48 + n" by simp
    then show ?thesis
      using True by (subst str_nat.simps) (simp add: read_nat_def)
  next
    case False
    then have "read_nat (str_nat (n div 10)) = n div 10"
      using "1.IH" by simp
    moreover have "(48 + n mod 10) mod 256 = 48 + n mod 10"
    proof -
      have "n mod 10 < 10" by simp
      then have "48 + n mod 10 < 256" by linarith
      then show ?thesis by simp
    qed
    ultimately show ?thesis
      using False by (subst str_nat.simps) (simp add: read_nat_snoc)
  qed
qed

lemma read_nat_zeros: "read_nat (replicate k CHR ''0'' @ s) = read_nat s"
proof -
  have "foldl (\<lambda>n c. 10 * n + (of_char c - 48)) (0::nat) (replicate k CHR ''0'') = 0"
    by (induction k) simp_all
  then show ?thesis
    by (simp add: read_nat_def)
qed

lemma format_display_name_inj:
  "format_display_name c n = format_display_name c m \<Longrightarrow> n = m"
proof -
  assume "format_display_name c n = format_display_name c m"
  then have "replicate (5 - length (str_nat n)) CHR ''0'' @ str_nat n =
      replicate (5 - length (str_nat m)) CHR ''0'' @ str_nat m"
    by (simp add: format_display_name_def)
  then have "read_nat (replicate (5 - length (str_nat n)) CHR ''0'' @ str_nat n) =
      read_nat (replicate (5 - length (str_nat m)) CHR ''0'' @ str_nat m)"
    by simp
  then show "n = m"
    by (simp only: read_nat_zeros read_nat_str_nat)
qed

lemma format_display_name_longer: "format_display_name c n \<noteq> c"
proof
  assume "format_display_name c n = c"
  then have "length (format_display_name c n) = length c" by simp
  then show False by (simp add: format_display_name_def)
qed


lemma comprehension_all2:
  "comprehension f xs = Inr ys \<Longrightarrow> list_all2 (\<lambda>x y. f x = Inr y) xs ys"
  by (induction xs arbitrary: ys) (auto split: sum.splits)

lemma comprehension_length: "comprehension f xs = Inr ys \<Longrightarrow> length ys = length xs"
  by (drule comprehension_all2) (simp add: list_all2_lengthD)

lemma comprehension_pairs:
  "\<forall>z \<in> set zs. f (snd z) = Inr (fst z) \<Longrightarrow> comprehension f (map snd zs) = Inr (map fst zs)"
  by (induction zs) auto

lemma environment_loop_labels:
  assumes "\<forall>c. map_of code_names_count c = (if cnt c = 0 then None else Some (cnt c))"
    and "environment_loop Env ps code_names_count environments environment_dict =
           Inr (environments', environment_dict')"
  shows "\<exists>cs objs. comprehension (\<lambda>p. getitem p ''codename'') ps = Inr cs \<and>
           comprehension Env ps = Inr objs \<and>
           environments' = environments @ zip (labels_from cnt cs) (map e_id objs)"
  using assms
proof (induction ps arbitrary: code_names_count cnt environments environment_dict)
  case Nil
  then show ?case by simp
next
  case (Cons p ps)
  from Cons.prems(2) obtain env_obj c where
    obj: "Env p = Inr env_obj" and c: "getitem p ''codename'' = Inr c"
    by (auto split: sum.splits)
  define label where "label = (if cnt c = 0 then c else format_display_name c (cnt c))"
  define count' where "count' = AList.update c (cnt c + 1) code_names_count"
  have look: "map_of code_names_count c = (if cnt c = 0 then None else Some (cnt c))"
    using Cons.prems(1) by blast
  have rest: "environment_loop Env ps count' (environments @ [(label, e_id env_obj)])
                (AList.update (e_id env_obj) env_obj environment_dict) =
              Inr (environments', environment_dict')"
    using Cons.prems(2) obj c look by (auto simp: label_def count'_def Let_def split: if_splits)
  have agree: "\<forall>c'. map_of count' c' =
      (if (cnt(c := cnt c + 1)) c' = 0 then None else Some ((cnt(c := cnt c + 1)) c'))"
    using Cons.prems(1) by (simp add: count'_def update_conv')
  from Cons.IH [OF agree rest] obtain cs objs where
    cs: "comprehension (\<lambda>p. getitem p ''codename'') ps = Inr cs" and
    objs: "comprehension Env ps = Inr objs" and
    out: "environments' = (environments @ [(label, e_id env_obj)]) @
            zip (labels_from (cnt(c := cnt c + 1)) cs) (map e_id objs)"
    by blast
  have "comprehension (\<lambda>p. getitem p ''codename'') (p # ps) = Inr (c # cs)"
    using c cs by simp
  moreover have "comprehension Env (p # ps) = Inr (env_obj # objs)"
    using obj objs by simp
  moreover have "environments' =
      environments @ zip (labels_from cnt (c # cs)) (map e_id (env_obj # objs))"
    using out by (simp add: label_def)
  ultimately show ?case by blast
qed

lemma length_labels_from: "length (labels_from cnt cs) = length cs"
  by (induction cs arbitrary: cnt) simp_all

lemma labels_from_nth:
  "i < length cs \<Longrightarrow>
   labels_from cnt cs ! i =
     (if cnt (cs ! i) + length (filter (\<lambda>c. c = cs ! i) (take i cs)) = 0 then cs ! i
      else format_display_name (cs ! i)
             (cnt (cs ! i) + length (filter (\<lambda>c. c = cs ! i) (take i cs))))"
proof (induction cs arbitrary: cnt i)
  case Nil
  then show ?case by simp
next
  case (Cons c cs)
  show ?case
  proof (cases i)
    case 0
    then show ?thesis by simp
  next
    case (Suc j)
    then have j: "j < length cs" using Cons.prems by simp
    have "labels_from cnt (c # cs) ! i = labels_from (cnt(c := cnt c + 1)) cs ! j"
      using Suc by simp
    also have "\<dots> =
        (if (cnt(c := cnt c + 1)) (cs ! j) + length (filter (\<lambda>c. c = cs ! j) (take j cs)) = 0
         then cs ! j
         else format_display_name (cs ! j)
                ((cnt(c := cnt c + 1)) (cs ! j) +
                 length (filter (\<lambda>c. c = cs ! j) (take j cs))))"
      using j by (rule Cons.IH)
    also have "\<dots> =
        (if cnt ((c # cs) ! i) +
            length (filter (\<lambda>c'. c' = (c # cs) ! i) (take i (c # cs))) = 0
         then (c # cs) ! i
         else format_display_name ((c # cs) ! i)
                (cnt ((c # cs) ! i) +
                 length (filter (\<lambda>c'. c' = (c # cs) ! i) (take i (c # cs)))))"
      using Suc by simp
    finally show ?thesis .
  qed
qed

lemma labels_from_display:
  "labels_from (\<lambda>c. 0) cs = map (display_label cs) [0..<length cs]"
proof (rule nth_equalityI)
  show "length (labels_from (\<lambda>c. 0) cs) = length (map (display_label cs) [0..<length cs])"
    by (simp add: length_labels_from)
next
  fix i
  assume "i < length (labels_from (\<lambda>c. 0) cs)"
  then have i: "i < length cs" by (simp add: length_labels_from)
  then show "labels_from (\<lambda>c. 0) cs ! i = map (display_label cs) [0..<length cs] ! i"
    by (simp add: labels_from_nth display_label_def occurrences_before_def)
qed

lemma occurrences_before_less:
  assumes "i < j" and "j < length cs" and "cs ! i = cs ! j"
  shows "occurrences_before cs i < occurrences_before cs j"
proof -
  have i: "i < length cs" using assms by simp
  define rest where "rest = drop (Suc i) (take j cs)"
  have "take j cs = take (Suc i) (take j cs) @ rest"
    unfolding rest_def by (rule append_take_drop_id [symmetric])
  also have "take (Suc i) (take j cs) = take (Suc i) cs"
    using assms(1) by (simp add: min_def)
  also have "take (Suc i) cs = take i cs @ [cs ! i]"
    using i by (rule take_Suc_conv_app_nth)
  finally have split: "take j cs = (take i cs @ [cs ! i]) @ rest" .
  have "filter (\<lambda>c. c = cs ! j) (take j cs) =
      filter (\<lambda>c. c = cs ! j) (take i cs) @ [cs ! i] @ filter (\<lambda>c. c = cs ! j) rest"
    unfolding split using assms(3) by simp
  then have "length (filter (\<lambda>c. c = cs ! j) (take j cs)) >
      length (filter (\<lambda>c. c = cs ! j) (take i cs))"
    by simp
  then show ?thesis
    using assms(3) by (simp add: occurrences_before_def)
qed

lemma display_label_first:
  "(display_label cs i = cs ! i) = (occurrences_before cs i = 0)"
  by (simp add: display_label_def format_display_name_longer)

lemma display_label_distinct:
  assumes "i < j" and "j < length cs" and "cs ! i = cs ! j"
  shows "display_label cs i \<noteq> display_label cs j"
proof -
  have less: "occurrences_before cs i < occurrences_before cs j"
    using assms by (rule occurrences_before_less)
  then have j: "display_label cs j = format_display_name (cs ! i) (occurrences_before cs j)"
    using assms(3) by (simp add: display_label_def)
  show ?thesis
  proof (cases "occurrences_before cs i = 0")
    case True
    then show ?thesis
      using j format_display_name_longer [of "cs ! i"] by (simp add: display_label_def) metis
  next
    case False
    then have "display_label cs i = format_display_name (cs ! i) (occurrences_before cs i)"
      by (simp add: display_label_def)
    then show ?thesis
      using j less format_display_name_inj [of "cs ! i"] by fastforce
  qed
qed

lemma sorted_by_codename_sorted:
  assumes "sorted_by_codename data = Inr sorted_data"
  shows "mset sorted_data = mset data \<and>
         (\<exists>cs. comprehension (\<lambda>p. getitem p ''codename'') sorted_data = Inr cs \<and> sorted cs)"
proof -
  from assms obtain keys where
    keys: "comprehension (\<lambda>x. getitem x ''codename'') data = Inr keys" and
    sd: "sorted_data = map snd (sort_key fst (zip keys data))"
    by (auto simp: sorted_by_codename_def split: sum.splits)
  have len: "length keys = length data"
    using keys by (rule comprehension_length)
  have all2: "list_all2 (\<lambda>x y. getitem x ''codename'' = Inr y) data keys"
    using keys by (rule comprehension_all2)
  have pairs: "\<forall>z \<in> set (zip keys data). getitem (snd z) ''codename'' = Inr (fst z)"
  proof
    fix z assume "z \<in> set (zip keys data)"
    then obtain i where "i < length data" "z = (keys ! i, data ! i)"
      using len by (auto simp: in_set_zip)
    then show "getitem (snd z) ''codename'' = Inr (fst z)"
      using all2 by (simp add: list_all2_conv_all_nth)
  qed
  then have "\<forall>z \<in> set (sort_key fst (zip keys data)). getitem (snd z) ''codename'' = Inr (fst z)"
    by simp
  then have "comprehension (\<lambda>p. getitem p ''codename'') sorted_data =
      Inr (map fst (sort_key fst (zip keys data)))"
    unfolding sd by (rule comprehension_pairs)
  moreover have "sorted (map fst (sort_key fst (zip keys data)))"
    by (rule sorted_sort_key)
  moreover have "mset sorted_data = mset data"
  proof -
    have "mset sorted_data = image_mset snd (mset (sort_key fst (zip keys data)))"
      by (simp add: sd)
    also have "\<dots> = mset (map snd (zip keys data))"
      by simp
    also have "\<dots> = mset data"
      using len by simp
    finally show ?thesis .
  qed
  ultimately show ?thesis by blast
qed


lemma takeWhile_stops:
  "c \<in> set cs \<Longrightarrow> length (takeWhile (\<lambda>x. x \<noteq> c) cs) < length cs"
  by (induction cs) auto

lemma first_occurrence:
  assumes "c \<in> set cs"
  shows "\<exists>!i. i < length cs \<and> cs ! i = c \<and> occurrences_before cs i = 0"
proof (rule ex1I [of _ "length (takeWhile (\<lambda>x. x \<noteq> c) cs)"])
  let ?i = "length (takeWhile (\<lambda>x. x \<noteq> c) cs)"
  have less: "?i < length cs"
    using assms by (rule takeWhile_stops)
  then have here: "cs ! ?i = c"
    using nth_length_takeWhile [of "\<lambda>x. x \<noteq> c" cs] by simp
  have "take ?i cs = takeWhile (\<lambda>x. x \<noteq> c) cs"
    by (rule takeWhile_eq_take [symmetric])
  then have "filter (\<lambda>x. x = c) (take ?i cs) = []"
    by (auto simp: filter_empty_conv dest: set_takeWhileD)
  then show "?i < length cs \<and> cs ! ?i = c \<and> occurrences_before cs ?i = 0"
    using less here by (simp add: occurrences_before_def)
next
  fix j
  let ?i = "length (takeWhile (\<lambda>x. x \<noteq> c) cs)"
  assume j: "j < length cs \<and> cs ! j = c \<and> occurrences_before cs j = 0"
  have less: "?i < length cs"
    using assms by (rule takeWhile_stops)
  then have here: "cs ! ?i = c"
    using nth_length_takeWhile [of "\<lambda>x. x \<noteq> c" cs] by simp
  have "take ?i cs = takeWhile (\<lambda>x. x \<noteq> c) cs"
    by (rule takeWhile_eq_take [symmetric])
  then have "filter (\<lambda>x. x = c) (take ?i cs) = []"
    by (auto simp: filter_empty_conv dest: set_takeWhileD)
  then have zero: "occurrences_before cs ?i = 0"
    using here by (simp add: occurrences_before_def)
  show "j = ?i"
  proof (rule ccontr)
    assume "j \<noteq> ?i"
    then consider "j < ?i" | "?i < j" by linarith
    then show False
    proof cases
      case 1
      then have "occurrences_before cs j < occurrences_before cs ?i"
        using less j here by (intro occurrences_before_less) simp_all
      then show False using zero by simp
    next
      case 2
      then have "occurrences_before cs ?i < occurrences_before cs j"
        using j here by (intro occurrences_before_less) simp_all
      then show False using j by simp
    qed
  qed
qed

lemma load_names_its_parts:
  assumes "get_sotopia_profiles_wrapped X env_file agent_file relationship_file =
             Inr (environments, environment_dict, agent_dict, relationship_dict)"
  shows "\<exists>data sorted_data cs objs.
           read_profiles X env_file = Inr data \<and>
           sorted_by_codename data = Inr sorted_data \<and>
           comprehension (\<lambda>p. getitem p ''codename'') sorted_data = Inr cs \<and>
           comprehension (Environment X) sorted_data = Inr objs \<and>
           environments = zip (labels_from (\<lambda>c. 0) cs) (map e_id objs)"
proof -
  from assms obtain data sorted_data where
    data: "read_profiles X env_file = Inr data" and
    sorted_data: "sorted_by_codename data = Inr sorted_data" and
    loop: "environment_loop (Environment X) sorted_data [] [] [] =
             Inr (environments, environment_dict)"
    by (auto simp: get_sotopia_profiles_wrapped_def split: sum.splits prod.splits)
  have "\<forall>c. map_of ([] :: (string, nat) dict) c =
      (if (\<lambda>c. 0 :: nat) c = 0 then None else Some ((\<lambda>c. 0) c))"
    by simp
  from environment_loop_labels [OF this loop] obtain cs objs where
    "comprehension (\<lambda>p. getitem p ''codename'') sorted_data = Inr cs"
    "comprehension (Environment X) sorted_data = Inr objs"
    "environments = zip (labels_from (\<lambda>c. 0) cs) (map e_id objs)"
    by auto
  then show ?thesis
    using data sorted_data by blast
qed

text \<open>
  C3: when the load returns, let the parsed environment records be sorted by codename,
  \<open>cs\<close> their codenames and \<open>objs\<close> their \<^verbatim>\<open>Environment\<close> objects, in that order. The
  sorted records are the parsed ones rearranged, and \<open>cs\<close> is sorted. The display list
  has one entry per record in that order: its second component is the id of the record's
  object, and its label is the codename when no earlier record has that codename, and
  otherwise the codename, an underscore and the number of earlier records with that
  codename, zero-padded to five digits. So for every codename exactly one record, the
  first, has the bare codename as label, and two records with the same codename never have
  the same label.
\<close>

theorem display_list_disambiguates_codenames:
  assumes "get_sotopia_profiles_wrapped X env_file agent_file relationship_file =
             Inr (environments, environment_dict, agent_dict, relationship_dict)"
    and "read_profiles X env_file = Inr data"
    and "sorted_by_codename data = Inr sorted_data"
    and "comprehension (\<lambda>p. getitem p ''codename'') sorted_data = Inr cs"
    and "comprehension (Environment X) sorted_data = Inr objs"
  shows "mset sorted_data = mset data \<and> sorted cs
         \<and> map snd environments = map e_id objs
         \<and> map fst environments = map (display_label cs) [0..<length cs]
         \<and> (\<forall>c \<in> set cs. \<exists>!i. i < length cs \<and> cs ! i = c \<and> fst (environments ! i) = c)
         \<and> (\<forall>i j. i < j \<and> j < length cs \<and> cs ! i = cs ! j \<longrightarrow>
               fst (environments ! i) \<noteq> fst (environments ! j))"
proof -
  from load_names_its_parts [OF assms(1)] have
    envs: "environments = zip (labels_from (\<lambda>c. 0) cs) (map e_id objs)"
    using assms(2-5) by auto
  have len: "length objs = length cs"
    using assms(4,5) by (simp add: comprehension_length)
  have labels: "map fst environments = map (display_label cs) [0..<length cs]"
    using envs len by (simp add: length_labels_from labels_from_display [symmetric])
  have ids: "map snd environments = map e_id objs"
    using envs len by (simp add: length_labels_from)
  have nth: "fst (environments ! i) = display_label cs i" if "i < length cs" for i
  proof -
    have "i < length environments"
      using that envs len by (simp add: length_labels_from)
    then have "fst (environments ! i) = map fst environments ! i"
      by simp
    then show ?thesis
      using that by (simp add: labels)
  qed
  have one: "\<forall>c \<in> set cs. \<exists>!i. i < length cs \<and> cs ! i = c \<and> fst (environments ! i) = c"
  proof
    fix c assume "c \<in> set cs"
    then have "\<exists>!i. i < length cs \<and> cs ! i = c \<and> occurrences_before cs i = 0"
      by (rule first_occurrence)
    moreover have "(i < length cs \<and> cs ! i = c \<and> occurrences_before cs i = 0) =
        (i < length cs \<and> cs ! i = c \<and> fst (environments ! i) = c)" for i
      using nth [of i] display_label_first [of cs i] by auto
    ultimately show "\<exists>!i. i < length cs \<and> cs ! i = c \<and> fst (environments ! i) = c"
      by simp
  qed
  have distinct: "\<forall>i j. i < j \<and> j < length cs \<and> cs ! i = cs ! j \<longrightarrow>
      fst (environments ! i) \<noteq> fst (environments ! j)"
  proof (intro allI impI)
    fix i j assume ij: "i < j \<and> j < length cs \<and> cs ! i = cs ! j"
    then have "display_label cs i \<noteq> display_label cs j"
      by (intro display_label_distinct) simp_all
    then show "fst (environments ! i) \<noteq> fst (environments ! j)"
      using ij nth [of i] nth [of j] by simp
  qed
  have "mset sorted_data = mset data \<and> sorted cs"
    using sorted_by_codename_sorted [OF assms(3)] assms(4) by auto
  then show ?thesis
    using labels ids one distinct by blast
qed


theorem display_list_disambiguates_codenames_witness:
  "get_sotopia_profiles_wrapped demo_ext ENVIRONMENT_PROFILES AGENT_PROFILES
     RELATIONSHIP_PROFILES = Inr demo_profiles
   \<and> (\<exists>data. read_profiles demo_ext ENVIRONMENT_PROFILES = Inr data
         \<and> sorted_by_codename data = Inr data
         \<and> comprehension (\<lambda>p. getitem p ''codename'') data =
             Inr [''negotiation'', ''negotiation''])
   \<and> map fst demo_environments = [''negotiation'', ''negotiation_00001'']
   \<and> map snd demo_environments = [''e2'', ''e1'']
   \<and> fst (demo_environments ! 0) \<noteq> fst (demo_environments ! 1)"
proof -
  define data where "data =
     [[(''env_id'', ''e2''), (''codename'', ''negotiation''), (''relationship'', ''friend'')],
      [(''env_id'', ''e1''), (''codename'', ''negotiation''), (''relationship'', ''stranger'')]]"
  define cs where "cs = [''negotiation'', ''negotiation'']"
  define objs where "objs =
     [\<lparr> e_id = ''e2'', codename = ''negotiation'', scenario = [], agent_goals = [],
         relationship = ''friend'' \<rparr>,
      \<lparr> e_id = ''e1'', codename = ''negotiation'', scenario = [], agent_goals = [],
         relationship = ''stranger'' \<rparr>]"
  have load: "get_sotopia_profiles_wrapped demo_ext ENVIRONMENT_PROFILES AGENT_PROFILES
      RELATIONSHIP_PROFILES = Inr demo_profiles"
    using demo_load by simp
  have efile: "read_profiles demo_ext ENVIRONMENT_PROFILES = Inr data"
    unfolding data_def by code_simp
  have sorted_data: "sorted_by_codename data = Inr data"
    unfolding data_def by code_simp
  have codenames: "comprehension (\<lambda>p. getitem p ''codename'') data = Inr cs"
    unfolding data_def cs_def by code_simp
  have objects: "comprehension (Environment demo_ext) data = Inr objs"
    unfolding data_def objs_def by code_simp
  have labels: "map (display_label cs) [0..<length cs] = [''negotiation'', ''negotiation_00001'']"
    unfolding cs_def by code_simp
  note main = display_list_disambiguates_codenames
      [OF load [unfolded demo_profiles_def] efile sorted_data codenames objects]
  have "map fst demo_environments = [''negotiation'', ''negotiation_00001'']"
    using main labels by simp
  moreover have "map snd demo_environments = [''e2'', ''e1'']"
    using main by (simp add: objs_def)
  moreover have "fst (demo_environments ! 0) \<noteq> fst (demo_environments ! 1)"
  proof -
    have "(0::nat) < 1 \<and> 1 < length cs \<and> cs ! 0 = cs ! 1"
      by (simp add: cs_def)
    then show ?thesis
      using main by blast
  qed
  ultimately show ?thesis
    using load efile sorted_data codenames unfolding cs_def by blast
qed

end
